theory Spec2Isabelle
  imports Complex_Main
begin

section \<open>Numbers\<close>

text \<open>
  The simulation code computes with JavaScript numbers. Frame counters, keyframe samples and
  seconds are modelled as exact reals and integers; the non-finite values (NaN and the two
  infinities) appear only where the source tests for them, in the geometry validation, and
  there coordinates are values of the type \<open>jsnum\<close>.
\<close>

text \<open>\<open>Math.round\<close>: the nearest integer, a tie going to the larger one.\<close>

definition js_round :: "real \<Rightarrow> int" where
  "js_round x = \<lfloor>x + 1 / 2\<rfloor>"

text \<open>Truthiness of a number that is not NaN: every number except zero.\<close>

definition truthy :: "real \<Rightarrow> bool" where
  "truthy x = (x \<noteq> 0)"

text \<open>\<open>a || b\<close> on numbers.\<close>

definition num_or :: "real option \<Rightarrow> real \<Rightarrow> real" where
  "num_or a b = (case a of None \<Rightarrow> b | Some v \<Rightarrow> if truthy v then v else b)"

datatype jsnum = Num real | NaN | PosInf | NegInf

text \<open>\<open>isFinite(v) && !isNaN(v)\<close>.\<close>

fun isFiniteNum :: "jsnum \<Rightarrow> bool" where
  "isFiniteNum (Num _) = True"
| "isFiniteNum _ = False"

text \<open>A frame index that may be \<open>Infinity\<close> (the out-point frame of a layer without one).\<close>

datatype ext_frame = Frame int | Infinity

text \<open>\<open>n >= b\<close> for an integer frame \<open>n\<close> and a bound that may be infinite.\<close>

fun frame_ge :: "int \<Rightarrow> ext_frame \<Rightarrow> bool" where
  "frame_ge n (Frame b) = (b \<le> n)"
| "frame_ge n Infinity = False"

fun frame_lt :: "int \<Rightarrow> ext_frame \<Rightarrow> bool" where
  "frame_lt n (Frame b) = (n < b)"
| "frame_lt n Infinity = True"

text \<open>
  What the source can throw: reading a property of \<open>undefined\<close>. A function that can
  throw returns \<open>Inl TypeError\<close> there.
\<close>

datatype error = TypeError

text \<open>\<open>xs[i]\<close>: \<open>undefined\<close> (\<open>None\<close>) outside the array.\<close>

definition js_nth :: "'a list \<Rightarrow> int \<Rightarrow> 'a option" where
  "js_nth xs i = (if 0 \<le> i \<and> i < int (length xs) then Some (xs ! nat i) else None)"

text \<open>Truthiness of an optional string: present and not empty.\<close>

definition truthy_str :: "string option \<Rightarrow> bool" where
  "truthy_str s = (case s of None \<Rightarrow> False | Some t \<Rightarrow> t \<noteq> [])"


section \<open>Data model (types/types.ts)\<close>

type_synonym vec2 = "real \<times> real"

text \<open>\<open>AnimatedSeries<T>\<close>, with \<open>lastKeyFrame: {frame, isHold} | null\<close>.\<close>

record lastKeyFrame =
  frame :: int
  isHold :: bool

record 'a animatedSeries =
  preValue :: 'a
  values_of :: "'a list"
  lastKeyFrame :: "lastKeyFrame option"

text \<open>
  \<open>BaseLayer.animatedProperties\<close>. The host adapter fills in only the properties it
  sampled, and the plan builder reads each of them through \<open>?.\<close>, so each is optional.
\<close>

record animatedProperties =
  ap_position :: "vec2 animatedSeries option"
  ap_rotation :: "real animatedSeries option"
  ap_scale :: "vec2 animatedSeries option"
  ap_anchorPoint :: "vec2 animatedSeries option"
  ap_bodyType :: "real animatedSeries option"
  ap_density :: "real animatedSeries option"
  ap_friction :: "real animatedSeries option"
  ap_frictionAir :: "real animatedSeries option"
  ap_restitution :: "real animatedSeries option"

record startProperties =
  sp_bodyType :: real
  sp_density :: real
  sp_friction :: real
  sp_frictionAir :: real
  sp_restitution :: real

text \<open>\<open>BaseLayer\<close>, the fields the simulation core reads.\<close>

record layer =
  name :: string
  layer_isStatic :: "bool option"
  layer_inOut :: "real list option"
  animatedProperties :: "animatedProperties option"
  startPropertiesValues :: "startProperties option"

text \<open>
  \<open>CompositionData\<close>. \<open>layers\<close> is the record of layers in the order in which
  \<open>Object.entries\<close> lists it; the static gravity values may be a number, an array or absent
  (\<open>None\<close> stands for a value that is not a number after taking element 0 of an array).
\<close>

record gravitySeries =
  gs_gravityAngle :: "real animatedSeries option"
  gs_gravityScale :: "real animatedSeries option"
  gs_drag :: "real animatedSeries option"

record compositionData =
  layers :: "(nat \<times> layer) list"
  gravityAngle :: "real option"
  gravityScale :: "real option"
  drag :: "real option"
  animatedGravityProperties :: "gravitySeries option"

type_synonym projectCompositions = "nat \<Rightarrow> compositionData option"

text \<open>\<open>AnimationPlan\<close>: per layer, the series that have a last keyframe.\<close>

record 'a planSeries =
  pre :: 'a
  vals :: "'a list"
  last_idx :: "int option"
  hold :: "bool option"

record layerPlan =
  lp_name :: string
  lp_position :: "vec2 planSeries option"
  lp_rotation :: "real planSeries option"
  lp_scale :: "vec2 planSeries option"
  lp_anchorPoint :: "vec2 planSeries option"
  lp_density :: "real planSeries option"
  lp_friction :: "real planSeries option"
  lp_frictionAir :: "real planSeries option"
  lp_restitution :: "real planSeries option"
  lp_bodyType :: "real planSeries option"

record animationPlan =
  physicsStartFrame :: int
  plan_layers :: "nat \<Rightarrow> layerPlan option"


subsection \<open>Physics bodies\<close>

text \<open>
  A body of the physics engine, with the fields that the repository reads or writes.
  \<open>partRenders\<close> holds the render records of the parts of a compound body other than the
  body itself, so \<open>body.parts.length > 1\<close> is \<open>partRenders \<noteq> []\<close>.
\<close>

record render =
  opacity :: real
  fillStyle :: "string option"
  strokeStyle :: "string option"

record pluginLayerData =
  inOut :: "real list"
  layerId :: nat
  isStaticInitial :: "bool option"

record physicalProperties =
  pp_mass :: real
  pp_inertia :: real
  pp_friction :: real
  pp_frictionAir :: real
  pp_restitution :: real

record plugin =
  layerData :: "pluginLayerData option"
  scaleX :: "real option"
  scaleY :: "real option"
  initialProperties :: "physicalProperties option"
  dynamicProperties :: "physicalProperties option"
  plugin_isStatic :: "bool option"
  originalFillStyle :: "string option"
  originalStrokeStyle :: "string option"

record body =
  body_id :: nat
  position :: vec2
  velocity :: vec2
  angle :: real
  angularVelocity :: jsnum
  isStatic :: bool
  isSleeping :: bool
  mass :: real
  inertia :: real
  density :: real
  friction :: real
  frictionAir :: real
  restitution :: real
  shapeScale :: vec2
  render :: "render option"
  partRenders :: "render option list"
  category :: nat
  mask :: nat
  plugin :: "plugin option"

definition emptyPlugin :: plugin where
  "emptyPlugin = \<lparr>layerData = None, scaleX = None, scaleY = None, initialProperties = None,
     dynamicProperties = None, plugin_isStatic = None, originalFillStyle = None,
     originalStrokeStyle = None\<rparr>"


subsection \<open>Operations of the physics library\<close>

text \<open>
  The repository drives the rigid-body library through its setters. The library is not
  part of the repository; each setter is modelled by the field of the body it assigns, and
  the quantities the library derives from it are left out.
\<close>

definition Body_setPosition :: "body \<Rightarrow> vec2 \<Rightarrow> body" where
  "Body_setPosition b p = b\<lparr>position := p\<rparr>"

definition Body_setVelocity :: "body \<Rightarrow> vec2 \<Rightarrow> body" where
  "Body_setVelocity b v = b\<lparr>velocity := v\<rparr>"

definition Body_setAngle :: "body \<Rightarrow> real \<Rightarrow> body" where
  "Body_setAngle b a = b\<lparr>angle := a\<rparr>"

definition Body_setAngularVelocity :: "body \<Rightarrow> jsnum \<Rightarrow> body" where
  "Body_setAngularVelocity b w = b\<lparr>angularVelocity := w\<rparr>"

definition Body_setStatic :: "body \<Rightarrow> bool \<Rightarrow> body" where
  "Body_setStatic b s = b\<lparr>isStatic := s\<rparr>"

definition Body_setMass :: "body \<Rightarrow> real \<Rightarrow> body" where
  "Body_setMass b m = b\<lparr>mass := m\<rparr>"

definition Body_setDensity :: "body \<Rightarrow> real \<Rightarrow> body" where
  "Body_setDensity b d = b\<lparr>density := d\<rparr>"

definition Body_scale :: "body \<Rightarrow> real \<Rightarrow> real \<Rightarrow> body" where
  "Body_scale b sx sy = b\<lparr>shapeScale := (fst (shapeScale b) * sx, snd (shapeScale b) * sy)\<rparr>"

definition Sleeping_set :: "body \<Rightarrow> bool \<Rightarrow> body" where
  "Sleeping_set b s = b\<lparr>isSleeping := s\<rparr>"


section \<open>Body synthesis (utils/bodies.ts)\<close>

text \<open>
  \<open>setBodyType\<close>. Without an initial-properties record in the plugin the function warns
  and returns; otherwise it snapshots the dynamic properties and makes the body static, or
  restores the initial properties and makes it dynamic, and records the state in the plugin.
\<close>

definition setBodyType :: "body \<Rightarrow> bool \<Rightarrow> body" where
  "setBodyType b toStatic =
     (case plugin b of
        None \<Rightarrow> b
      | Some pl \<Rightarrow>
          (case initialProperties pl of
             None \<Rightarrow> b
           | Some initialProps \<Rightarrow>
               (if toStatic then
                  (let pl1 = pl\<lparr>dynamicProperties := Some \<lparr>pp_mass = mass b, pp_inertia = inertia b,
                                  pp_friction = friction b, pp_frictionAir = frictionAir b,
                                  pp_restitution = restitution b\<rparr>\<rparr>;
                       b1 = Body_setStatic (b\<lparr>plugin := Some pl1\<rparr>) True
                   in b1\<lparr>plugin := Some (pl1\<lparr>plugin_isStatic := Some toStatic\<rparr>)\<rparr>)
                else
                  (let b1 = Body_setMass b (pp_mass initialProps);
                       b2 = Body_setStatic b1 False;
                       b3 = b2\<lparr>inertia := pp_inertia initialProps,
                               friction := pp_friction initialProps,
                               frictionAir := pp_frictionAir initialProps,
                               restitution := pp_restitution initialProps\<rparr>;
                       b4 = Body_setVelocity b3 (0, 0);
                       b5 = Body_setAngularVelocity b4 (Num 0)
                   in b5\<lparr>plugin := Some (pl\<lparr>plugin_isStatic := Some toStatic\<rparr>)\<rparr>))))"

text \<open>
  \<open>createMatterBody\<close>, the options object handed to \<open>Body.create\<close> for the compound body
  (the local \<open>isStatic\<close> of the function, then the object literal). In the source the static
  flag is written \<open>bodyType === 1 ? false : true || isStatic\<close>; \<open>||\<close> binds tighter than the
  conditional, so the else-branch is \<open>true || isStatic\<close>.
\<close>

record compoundOptions =
  opt_isStatic :: bool
  opt_density :: real
  opt_friction :: real
  opt_frictionAir :: real
  opt_restitution :: real
  opt_layerData :: pluginLayerData

definition createMatterBody_isStatic :: "layer \<Rightarrow> bool" where
  "createMatterBody_isStatic lyr =
     (case layer_isStatic lyr of
        Some s \<Rightarrow> s
      | None \<Rightarrow> map_option sp_bodyType (startPropertiesValues lyr) = Some 2)"

definition createMatterBody_options ::
  "layer \<Rightarrow> nat \<Rightarrow> startProperties option \<Rightarrow> compoundOptions" where
  "createMatterBody_options lyr lid spv =
     (let isStatic0 = createMatterBody_isStatic lyr in
      \<lparr>opt_isStatic =
         (if map_option sp_bodyType spv = Some 1 then False else (True \<or> isStatic0)),
       opt_density =
         (case spv of None \<Rightarrow> 0.001
          | Some s \<Rightarrow> if truthy (sp_density s) then sp_density s / 1000 else 0.001),
       opt_friction = num_or (map_option sp_friction spv) 0.1,
       opt_frictionAir = num_or (map_option sp_frictionAir spv) 0.01,
       opt_restitution = num_or (map_option sp_restitution spv) 0.1,
       opt_layerData =
         \<lparr>inOut = (case layer_inOut lyr of None \<Rightarrow> [] | Some io \<Rightarrow> io),
          layerId = lid,
          isStaticInitial =
            Some (if map_option sp_bodyType spv = Some 1 then False else (True \<or> isStatic0))\<rparr>\<rparr>)"


section \<open>Animation plan (utils/animationPlan.ts)\<close>

text \<open>
  The builder copies a series into the plan only if it has a last keyframe. The object
  literal it writes for a series is the same for all nine properties, except that position
  and rotation also carry \<open>isHold\<close>.
\<close>

definition collectSeries :: "bool \<Rightarrow> 'a animatedSeries option \<Rightarrow> 'a planSeries option" where
  "collectSeries withHold s =
     (case s of None \<Rightarrow> None
      | Some a \<Rightarrow>
          (case lastKeyFrame a of None \<Rightarrow> None
           | Some k \<Rightarrow>
               Some \<lparr>pre = preValue a, vals = values_of a, last_idx = Some (frame k),
                     hold = (if withHold then Some (isHold k) else None)\<rparr>))"

text \<open>
  The body of the \<open>forEach\<close> over the layers: the state is the pair of the running
  \<open>lastPositionFrame\<close> and the \<open>layersPlan\<close> built so far.
\<close>

definition planLayer ::
  "nat \<times> layer \<Rightarrow> int \<times> (nat \<Rightarrow> layerPlan option) \<Rightarrow> int \<times> (nat \<Rightarrow> layerPlan option)" where
  "planLayer entry st =
     (case animatedProperties (snd entry) of
        None \<Rightarrow> st
      | Some ap \<Rightarrow>
          (let lp = \<lparr>lp_name = name (snd entry),
                     lp_position = collectSeries True (ap_position ap),
                     lp_rotation = collectSeries True (ap_rotation ap),
                     lp_scale = collectSeries False (ap_scale ap),
                     lp_anchorPoint = collectSeries False (ap_anchorPoint ap),
                     lp_density = collectSeries False (ap_density ap),
                     lp_friction = collectSeries False (ap_friction ap),
                     lp_frictionAir = collectSeries False (ap_frictionAir ap),
                     lp_restitution = collectSeries False (ap_restitution ap),
                     lp_bodyType = collectSeries False (ap_bodyType ap)\<rparr>;
               lastPositionFrame =
                 (case ap_position ap of None \<Rightarrow> fst st
                  | Some a \<Rightarrow>
                      (case lastKeyFrame a of None \<Rightarrow> fst st
                       | Some k \<Rightarrow> max (fst st) (frame k)));
               layersPlan =
                 (if lp_position lp \<noteq> None \<or> lp_rotation lp \<noteq> None \<or> lp_scale lp \<noteq> None
                     \<or> lp_anchorPoint lp \<noteq> None \<or> lp_density lp \<noteq> None
                     \<or> lp_friction lp \<noteq> None \<or> lp_frictionAir lp \<noteq> None
                     \<or> lp_restitution lp \<noteq> None \<or> lp_bodyType lp \<noteq> None
                  then (snd st)(fst entry \<mapsto> lp) else snd st)
           in (lastPositionFrame, layersPlan)))"

definition emptyPlan :: animationPlan where
  "emptyPlan = \<lparr>physicsStartFrame = -1, plan_layers = Map.empty\<rparr>"

text \<open>
  \<open>buildAnimationPlan\<close>. The guard \<open>!compId || !data || !data[compId]\<close> gives the empty
  plan for a null or zero composition id, for null data and for an unknown composition.
\<close>

definition buildAnimationPlan :: "nat option \<Rightarrow> projectCompositions option \<Rightarrow> animationPlan" where
  "buildAnimationPlan currentCompId compData =
     (case currentCompId of
        None \<Rightarrow> emptyPlan
      | Some compId \<Rightarrow>
          if compId = 0 then emptyPlan
          else
            (case compData of
               None \<Rightarrow> emptyPlan
             | Some data \<Rightarrow>
                 (case data compId of
                    None \<Rightarrow> emptyPlan
                  | Some cdata \<Rightarrow>
                      (let st = fold planLayer (layers cdata) (-1, Map.empty)
                       in \<lparr>physicsStartFrame = fst st, plan_layers = snd st\<rparr>))))"

text \<open>
  The frames the specification speaks of: the \<open>lastKeyFrame.frame\<close> of the position
  series of a layer, if it has one, and the list of them over the layers of a composition.
\<close>

definition positionLastFrame :: "layer \<Rightarrow> int option" where
  "positionLastFrame l =
     (case animatedProperties l of None \<Rightarrow> None
      | Some ap \<Rightarrow>
          (case ap_position ap of None \<Rightarrow> None
           | Some a \<Rightarrow> map_option frame (lastKeyFrame a)))"

definition positionLastFrames :: "compositionData \<Rightarrow> int list" where
  "positionLastFrames cdata = List.map_filter (\<lambda>e. positionLastFrame (snd e)) (layers cdata)"


section \<open>In/out points (utils/simulation/simInOutPoints.ts)\<close>

record inOutResult =
  isDisabled :: bool
  isAtInPoint :: bool
  inPointAfterWorkarea :: bool

text \<open>\<open>inOut && inOut[i]\<close>: the entry when the array is there, long enough and the entry is truthy.\<close>

definition inOut_entry :: "real list option \<Rightarrow> nat \<Rightarrow> real option" where
  "inOut_entry io i =
     (case io of None \<Rightarrow> None
      | Some xs \<Rightarrow> if i < length xs \<and> truthy (xs ! i) then Some (xs ! i) else None)"

definition inPointFrame :: "real list option \<Rightarrow> real \<Rightarrow> int" where
  "inPointFrame io compFramerate =
     (case inOut_entry io 0 of Some t \<Rightarrow> js_round (t * compFramerate) | None \<Rightarrow> 0)"

definition outPointFrame :: "real list option \<Rightarrow> real \<Rightarrow> ext_frame" where
  "outPointFrame io compFramerate =
     (case inOut_entry io 1 of Some t \<Rightarrow> Frame (js_round (t * compFramerate)) | None \<Rightarrow> Infinity)"

definition workareaStartFrame :: "real \<Rightarrow> real \<Rightarrow> int" where
  "workareaStartFrame workareaStart compFramerate = js_round (workareaStart * compFramerate)"

definition checkInOutStatus :: "real list option \<Rightarrow> int \<Rightarrow> real \<Rightarrow> real \<Rightarrow> inOutResult" where
  "checkInOutStatus io nextCompFrame compFramerate workareaStart =
     (let ipf = inPointFrame io compFramerate;
          opf = outPointFrame io compFramerate;
          wsf = workareaStartFrame workareaStart compFramerate;
          isBeforeInPoint = (ipf > wsf \<and> nextCompFrame < ipf);
          isAfterOutPoint = frame_ge nextCompFrame opf
      in \<lparr>isDisabled = (isBeforeInPoint \<or> isAfterOutPoint),
          isAtInPoint = (nextCompFrame = ipf),
          inPointAfterWorkarea = (ipf > wsf)\<rparr>)"


text \<open>Sequencing of steps that can throw.\<close>

definition andThen :: "error + 'a \<Rightarrow> ('a \<Rightarrow> error + 'b) \<Rightarrow> error + 'b" where
  "andThen r f = (case r of Inl e \<Rightarrow> Inl e | Inr v \<Rightarrow> f v)"

text \<open>\<open>plan.layers[layerId]\<close>, for a layer id that may be \<open>undefined\<close>.\<close>

definition planOf :: "animationPlan \<Rightarrow> nat option \<Rightarrow> layerPlan option" where
  "planOf plan lid = (case lid of None \<Rightarrow> None | Some i \<Rightarrow> plan_layers plan i)"

text \<open>\<open>series?.last ?? -1\<close>.\<close>

definition lastOr :: "'a planSeries option \<Rightarrow> int" where
  "lastOr s = (case s of None \<Rightarrow> -1 | Some q \<Rightarrow> (case last_idx q of None \<Rightarrow> -1 | Some k \<Rightarrow> k))"

definition applyDisabledState :: "body \<Rightarrow> body" where
  "applyDisabledState b =
     (let b1 = Sleeping_set b True;
          b2 = (case render b1 of
                  None \<Rightarrow> b1
                | Some r \<Rightarrow>
                    b1\<lparr>render := Some (r\<lparr>opacity := 0.25\<rparr>),
                       partRenders := map (map_option (\<lambda>p. p\<lparr>opacity := 0.25\<rparr>)) (partRenders b1)\<rparr>)
      in b2\<lparr>category := 0, mask := 0\<rparr>)"

definition applyEnabledState :: "body \<Rightarrow> bool \<Rightarrow> body" where
  "applyEnabledState b static =
     (let b1 = (case render b of
                  None \<Rightarrow> b
                | Some r \<Rightarrow>
                    (let normalOpacity = (if static then 0.5 else 1) in
                     b\<lparr>render := Some (r\<lparr>opacity := normalOpacity\<rparr>),
                       partRenders :=
                         map (map_option (\<lambda>p. p\<lparr>opacity := normalOpacity\<rparr>)) (partRenders b)\<rparr>))
      in b1\<lparr>category := 1, mask := 65535\<rparr>)"

text \<open>
  \<open>applyBodyTypeVisuals\<close>. Making a body static stores the original styles in the plugin
  the first time; without a plugin object that assignment throws.
\<close>

definition applyBodyTypeVisuals :: "body \<Rightarrow> bool \<Rightarrow> error + body" where
  "applyBodyTypeVisuals b static =
     (case render b of
        None \<Rightarrow> Inr b
      | Some r0 \<Rightarrow>
          (let normalOpacity = (if static then 0.5 else 1);
               r1 = r0\<lparr>opacity := normalOpacity\<rparr>
           in if static then
                (case plugin b of
                   None \<Rightarrow> Inl TypeError
                 | Some pl \<Rightarrow>
                     (let pl1 = (if \<not> truthy_str (originalFillStyle pl)
                                 then pl\<lparr>originalFillStyle := fillStyle r1,
                                         originalStrokeStyle := strokeStyle r1\<rparr>
                                 else pl);
                          r2 = r1\<lparr>fillStyle := Some ''#545454'', strokeStyle := Some ''#545454''\<rparr>
                      in Inr (b\<lparr>plugin := Some pl1, render := Some r2,
                                partRenders :=
                                  map (map_option (\<lambda>p. p\<lparr>opacity := normalOpacity,
                                         fillStyle := Some ''#545454'',
                                         strokeStyle := Some ''#545454''\<rparr>)) (partRenders b)\<rparr>)))
              else
                (let origFill = (case plugin b of None \<Rightarrow> None | Some pl \<Rightarrow> originalFillStyle pl);
                     origStroke = (case plugin b of None \<Rightarrow> None | Some pl \<Rightarrow> originalStrokeStyle pl);
                     r2 = r1\<lparr>fillStyle := (if truthy_str origFill then origFill else fillStyle r1),
                             strokeStyle := (if truthy_str origStroke then origStroke else strokeStyle r1)\<rparr>;
                     partFill = (if truthy_str origFill then origFill else fillStyle r2);
                     partStroke = (if truthy_str origStroke then origStroke else strokeStyle r2)
                 in Inr (b\<lparr>render := Some r2,
                           partRenders :=
                             map (map_option (\<lambda>p. p\<lparr>opacity := normalOpacity,
                                    fillStyle := (if truthy_str partFill then partFill else fillStyle p),
                                    strokeStyle := (if truthy_str partStroke then partStroke else strokeStyle p)\<rparr>))
                               (partRenders b)\<rparr>))))"

text \<open>
  The composition index that the runner passes to the helpers below is
  \<open>Math.max(0, nextCompFrame - 1)\<close>, a natural number.
\<close>

definition handleInPointActivation ::
  "body \<Rightarrow> nat option \<Rightarrow> animationPlan \<Rightarrow> nat \<Rightarrow> error + body" where
  "handleInPointActivation b lid plan currentCompIdx =
     (let bt = (case planOf plan lid of None \<Rightarrow> None | Some lp \<Rightarrow> lp_bodyType lp);
          lastBodyTypeIdx = lastOr bt;
          wasStaticInitial =
            (case plugin b of None \<Rightarrow> None
             | Some pl \<Rightarrow> (case layerData pl of None \<Rightarrow> None | Some ld \<Rightarrow> isStaticInitial ld));
          atInPointStatic =
            (case bt of
               None \<Rightarrow> (wasStaticInitial = Some True)
             | Some q \<Rightarrow>
                 if length (vals q) > 0 then
                   (let candidateIdx = min (int currentCompIdx) (int (length (vals q)) - 1);
                        preInPointIdx = (if lastBodyTypeIdx \<ge> 0 then min candidateIdx lastBodyTypeIdx
                                         else candidateIdx)
                    in js_round (vals q ! nat preInPointIdx) = 2)
                 else js_round (pre q) = 2);
          b1 = Body_setStatic b atInPointStatic;
          b2 = (if \<not> atInPointStatic then Sleeping_set b1 False else b1)
      in andThen (applyBodyTypeVisuals b2 atInPointStatic)
           (\<lambda>b3. Inr (b3\<lparr>category := 1, mask := 65535\<rparr>)))"


section \<open>Keyframe forcing (utils/simulation/simKeyframeForcing.ts)\<close>

text \<open>
  \<open>forcePosition\<close>. The velocity hand-off at the last keyframe reads
  \<open>posSeries[currentCompIdx][0]\<close> without a bounds check, which throws when the index is
  beyond the sampled values. The plan type gives \<open>pre\<close> as a pair of numbers, so the
  \<open>??\<close> fallback of the source for a missing pre-value is never taken.
\<close>

definition forcePosition ::
  "body \<Rightarrow> nat option \<Rightarrow> animationPlan \<Rightarrow> nat \<Rightarrow> int \<Rightarrow> real \<Rightarrow> real \<Rightarrow> error + body" where
  "forcePosition b lid plan currentCompIdx expectedCompFrames simulationFps compFramerate =
     (case (case planOf plan lid of None \<Rightarrow> None | Some lp \<Rightarrow> lp_position lp) of
        None \<Rightarrow> Inr b
      | Some ps \<Rightarrow>
          (let posSeries = vals ps;
               lastPosIdx = lastOr (Some ps);
               posIsHold = (case hold ps of None \<Rightarrow> False | Some h \<Rightarrow> h);
               lastPosInside = (lastPosIdx \<ge> 0 \<and> lastPosIdx < expectedCompFrames);
               shouldForcePos = (\<not> lastPosInside \<or> posIsHold \<or> int currentCompIdx \<le> lastPosIdx);
               b1 = (if shouldForcePos \<and> currentCompIdx < length posSeries then
                       (let b' = Body_setPosition b (posSeries ! currentCompIdx);
                            b'' = (if int currentCompIdx < lastPosIdx \<or> posIsHold \<or> \<not> lastPosInside
                                   then Body_setVelocity b' (0, 0) else b')
                        in Sleeping_set b'' False)
                     else b)
           in if int currentCompIdx = lastPosIdx then
                (if currentCompIdx > 0 then
                   (case js_nth posSeries (int currentCompIdx) of
                      None \<Rightarrow> Inl TypeError
                    | Some cur \<Rightarrow>
                        (case js_nth posSeries (int currentCompIdx - 1) of
                           None \<Rightarrow> Inl TypeError
                         | Some prev \<Rightarrow>
                             Inr (Body_setVelocity b1
                                   ((fst cur - fst prev) * (simulationFps / compFramerate),
                                    (snd cur - snd prev) * (simulationFps / compFramerate)))))
                 else
                   (case js_nth posSeries (int currentCompIdx) of
                      None \<Rightarrow> Inl TypeError
                    | Some cur \<Rightarrow>
                        Inr (Body_setVelocity b1
                              ((fst cur - fst (pre ps)) * (simulationFps / compFramerate),
                               (snd cur - snd (pre ps)) * (simulationFps / compFramerate)))))
              else Inr b1))"

text \<open>
  \<open>forceRotation\<close>. Here a read beyond the samples does not throw: the difference of
  \<open>undefined\<close> values is NaN, and that becomes the angular velocity.
\<close>

definition forceRotation ::
  "body \<Rightarrow> nat option \<Rightarrow> animationPlan \<Rightarrow> nat \<Rightarrow> int \<Rightarrow> real \<Rightarrow> real \<Rightarrow> body" where
  "forceRotation b lid plan currentCompIdx expectedCompFrames simulationFps compFramerate =
     (case (case planOf plan lid of None \<Rightarrow> None | Some lp \<Rightarrow> lp_rotation lp) of
        None \<Rightarrow> b
      | Some rs \<Rightarrow>
          (let rotSeries = vals rs;
               lastRotIdx = lastOr (Some rs);
               rotIsHold = (case hold rs of None \<Rightarrow> False | Some h \<Rightarrow> h);
               lastRotInside = (lastRotIdx \<ge> 0 \<and> lastRotIdx < expectedCompFrames);
               shouldForceRot = (\<not> lastRotInside \<or> rotIsHold \<or> int currentCompIdx \<le> lastRotIdx);
               b1 = (if shouldForceRot \<and> currentCompIdx < length rotSeries then
                       (let b' = Body_setAngle b ((rotSeries ! currentCompIdx * pi) / 180);
                            b'' = (if int currentCompIdx < lastRotIdx \<or> rotIsHold \<or> \<not> lastRotInside
                                   then Body_setAngularVelocity b' (Num 0) else b')
                        in Sleeping_set b'' False)
                     else b)
           in if int currentCompIdx = lastRotIdx then
                (if currentCompIdx > 0 then
                   Body_setAngularVelocity b1
                     (case js_nth rotSeries (int currentCompIdx) of
                        None \<Rightarrow> NaN
                      | Some cur \<Rightarrow>
                          (case js_nth rotSeries (int currentCompIdx - 1) of
                             None \<Rightarrow> NaN
                           | Some prev \<Rightarrow>
                               Num (((cur - prev) * pi) / 180 * (simulationFps / compFramerate))))
                 else
                   Body_setAngularVelocity b1
                     (case js_nth rotSeries (int currentCompIdx) of
                        None \<Rightarrow> NaN
                      | Some cur \<Rightarrow>
                          Num (((cur - pre rs) * pi) / 180 * (simulationFps / compFramerate))))
              else b1))"

definition EPS :: real where
  "EPS = 1 / 1000000"

definition forceScale :: "body \<Rightarrow> nat option \<Rightarrow> animationPlan \<Rightarrow> nat \<Rightarrow> body" where
  "forceScale b lid plan currentCompIdx =
     (case (case planOf plan lid of None \<Rightarrow> None | Some lp \<Rightarrow> lp_scale lp) of
        None \<Rightarrow> b
      | Some ss \<Rightarrow>
          (let scaleSeries = vals ss;
               lastScaleIdx = lastOr (Some ss)
           in if int currentCompIdx > lastScaleIdx \<or> currentCompIdx \<ge> length scaleSeries then b
              else
                (let scaleXv = fst (scaleSeries ! currentCompIdx) / 100;
                     scaleYv = snd (scaleSeries ! currentCompIdx) / 100;
                     prevScaleXRaw = (case plugin b of None \<Rightarrow> None | Some pl \<Rightarrow> scaleX pl);
                     prevScaleYRaw = (case plugin b of None \<Rightarrow> None | Some pl \<Rightarrow> scaleY pl);
                     prevScaleX = max (case prevScaleXRaw of Some v \<Rightarrow> v | None \<Rightarrow> 1) EPS;
                     prevScaleY = max (case prevScaleYRaw of Some v \<Rightarrow> v | None \<Rightarrow> 1) EPS;
                     targetScaleX = max scaleXv EPS;
                     targetScaleY = max scaleYv EPS;
                     b1 = Body_scale b (targetScaleX / prevScaleX) (targetScaleY / prevScaleY);
                     pl0 = (case plugin b1 of None \<Rightarrow> emptyPlugin | Some pl \<Rightarrow> pl);
                     b2 = b1\<lparr>plugin := Some (pl0\<lparr>scaleX := Some targetScaleX,
                                                   scaleY := Some targetScaleY\<rparr>)\<rparr>
                 in Sleeping_set b2 False)))"


section \<open>Material forcing (utils/simulation/simPhysicsProps.ts)\<close>

text \<open>\<open>series && currentCompIdx <= last && currentCompIdx < series.length\<close>: the sample to force.\<close>

definition activeSample :: "real planSeries option \<Rightarrow> nat \<Rightarrow> real option" where
  "activeSample s currentCompIdx =
     (case s of
        None \<Rightarrow> None
      | Some q \<Rightarrow>
          if int currentCompIdx \<le> lastOr s \<and> currentCompIdx < length (vals q)
          then Some (vals q ! currentCompIdx) else None)"

definition updatePhysicsProperties ::
  "body \<Rightarrow> nat option \<Rightarrow> animationPlan \<Rightarrow> nat \<Rightarrow> real \<Rightarrow> body" where
  "updatePhysicsProperties b lid plan currentCompIdx frictionAirDefault =
     (let lp = planOf plan lid;
          b1 = (case activeSample (case lp of None \<Rightarrow> None | Some l \<Rightarrow> lp_density l) currentCompIdx of
                  Some densityValue \<Rightarrow>
                    Sleeping_set (Body_setDensity b (max (densityValue / 1000) (1 / 1000000))) False
                | None \<Rightarrow> b);
          b2 = (case activeSample (case lp of None \<Rightarrow> None | Some l \<Rightarrow> lp_friction l) currentCompIdx of
                  Some v \<Rightarrow> Sleeping_set (b1\<lparr>friction := v\<rparr>) False
                | None \<Rightarrow> b1);
          b3 = (case activeSample (case lp of None \<Rightarrow> None | Some l \<Rightarrow> lp_frictionAir l) currentCompIdx of
                  Some v \<Rightarrow> Sleeping_set (b2\<lparr>frictionAir := v\<rparr>) False
                | None \<Rightarrow> b2\<lparr>frictionAir := frictionAirDefault\<rparr>)
      in (case activeSample (case lp of None \<Rightarrow> None | Some l \<Rightarrow> lp_restitution l) currentCompIdx of
            Some v \<Rightarrow> Sleeping_set (b3\<lparr>restitution := v\<rparr>) False
          | None \<Rightarrow> b3))"


section \<open>Body type switching (utils/simulation/simBodyType.ts)\<close>

definition handleBodyTypeSwitch ::
  "body \<Rightarrow> nat option \<Rightarrow> animationPlan \<Rightarrow> nat \<Rightarrow> bool \<Rightarrow> error + body" where
  "handleBodyTypeSwitch b lid plan currentCompIdx disabled =
     (case (case planOf plan lid of None \<Rightarrow> None | Some lp \<Rightarrow> lp_bodyType lp) of
        None \<Rightarrow> Inr b
      | Some bt \<Rightarrow>
          (let bodyTypeSeries = vals bt;
               lastBodyTypeIdx = lastOr (Some bt)
           in if int currentCompIdx > lastBodyTypeIdx \<or> currentCompIdx \<ge> length bodyTypeSeries
              then Inr b
              else
                (let currentValRounded = js_round (bodyTypeSeries ! currentCompIdx);
                     prevValRounded =
                       (if currentCompIdx > 0 then js_round (bodyTypeSeries ! (currentCompIdx - 1))
                        else js_round (pre bt))
                 in if \<not> disabled \<and> currentValRounded \<noteq> prevValRounded then
                      (let toStatic = (currentValRounded = 2);
                           b1 = setBodyType b toStatic;
                           b2 = (if \<not> toStatic then Sleeping_set b1 False else b1)
                       in applyBodyTypeVisuals b2 toStatic)
                    else Inr b)))"


section \<open>Gravity (utils/simulation/simGravity.ts)\<close>

record engine =
  timestamp :: real
  gravity_x :: real
  gravity_y :: real
  gravity_scale :: real
  world_bodies :: "body list"

text \<open>
  \<open>series && compFrameIdx < series.length ? series[compFrameIdx] : (typeof raw === "number" ? raw : dflt)\<close>.
\<close>

definition gravityValue :: "real list option \<Rightarrow> nat \<Rightarrow> real option \<Rightarrow> real \<Rightarrow> real" where
  "gravityValue series compFrameIdx raw dflt =
     (case series of
        Some xs \<Rightarrow>
          if compFrameIdx < length xs then xs ! compFrameIdx
          else (case raw of Some v \<Rightarrow> v | None \<Rightarrow> dflt)
      | None \<Rightarrow> (case raw of Some v \<Rightarrow> v | None \<Rightarrow> dflt))"

text \<open>\<open>updateGravity\<close> sets the gravity of the engine and returns the default air friction.\<close>

definition updateGravity :: "engine \<Rightarrow> compositionData option \<Rightarrow> nat \<Rightarrow> engine \<times> real" where
  "updateGravity e cdata compFrameIdx =
     (case cdata of
        None \<Rightarrow> (e, 0)
      | Some c \<Rightarrow>
          (let gs = animatedGravityProperties c;
               angleSeries = (case gs of None \<Rightarrow> None
                              | Some g \<Rightarrow> map_option values_of (gs_gravityAngle g));
               scaleSeries = (case gs of None \<Rightarrow> None
                              | Some g \<Rightarrow> map_option values_of (gs_gravityScale g));
               dragSeries = (case gs of None \<Rightarrow> None
                             | Some g \<Rightarrow> map_option values_of (gs_drag g));
               angleVal = gravityValue angleSeries compFrameIdx (gravityAngle c) 90;
               scaleVal = gravityValue scaleSeries compFrameIdx (gravityScale c) 9.8;
               dragVal = gravityValue dragSeries compFrameIdx (drag c) 0;
               rad = (angleVal * pi) / 180
           in (e\<lparr>gravity_x := sin rad * (-1), gravity_y := cos rad,
                  gravity_scale := (scaleVal / (9.8 * 3)) * 0.01\<rparr>,
               max dragVal 0 / 100)))"


section \<open>Frame capture (utils/simulation/simFrameCapture.ts)\<close>

record bodyState =
  bs_id :: nat
  bs_position :: vec2
  bs_angle :: real
  bs_scale :: vec2
  bs_isStatic :: bool
  bs_opacity :: real
  bs_fillStyle :: "string option"
  bs_strokeStyle :: "string option"
  bs_plugin :: "plugin option"

record frameData =
  time :: real
  bodies :: "bodyState list"

definition captureBody :: "body \<Rightarrow> bodyState" where
  "captureBody b =
     \<lparr>bs_id = body_id b,
      bs_position = position b,
      bs_angle = angle b,
      bs_scale = (num_or (case plugin b of None \<Rightarrow> None | Some pl \<Rightarrow> scaleX pl) 1,
                  num_or (case plugin b of None \<Rightarrow> None | Some pl \<Rightarrow> scaleY pl) 1),
      bs_isStatic = isStatic b,
      bs_opacity = (case render b of None \<Rightarrow> 1 | Some r \<Rightarrow> opacity r),
      bs_fillStyle = (case render b of None \<Rightarrow> None | Some r \<Rightarrow> fillStyle r),
      bs_strokeStyle = (case render b of None \<Rightarrow> None | Some r \<Rightarrow> strokeStyle r),
      bs_plugin = plugin b\<rparr>"

definition captureFrame :: "engine \<Rightarrow> real \<Rightarrow> frameData" where
  "captureFrame e t = \<lparr>time = t, bodies = map captureBody (world_bodies e)\<rparr>"


section \<open>Simulation runner (hooks/useSimulationRunner.ts)\<close>

definition SIMULATION_FPS :: real where
  "SIMULATION_FPS = 50"

definition SIMULATION_DELTA :: real where
  "SIMULATION_DELTA = 1000 / SIMULATION_FPS"

text \<open>
  The callback of \<open>world.bodies.forEach\<close> in the pre-integration loop. The gating is
  checked first; a disabled body gets the disabled state and the callback returns.
\<close>

text \<open>\<open>body?.plugin?.layerData?.layerId\<close> and \<open>body?.plugin?.layerData?.inOut\<close>.\<close>

definition bodyLayerId :: "body \<Rightarrow> nat option" where
  "bodyLayerId b =
     map_option layerId (case plugin b of None \<Rightarrow> None | Some pl \<Rightarrow> layerData pl)"

definition bodyInOut :: "body \<Rightarrow> real list option" where
  "bodyInOut b =
     map_option inOut (case plugin b of None \<Rightarrow> None | Some pl \<Rightarrow> layerData pl)"

definition processBody ::
  "animationPlan \<Rightarrow> int \<Rightarrow> nat \<Rightarrow> int \<Rightarrow> real \<Rightarrow> real \<Rightarrow> real \<Rightarrow> body \<Rightarrow> error + body" where
  "processBody plan nextCompFrame currentCompIdx expectedCompFrames compFramerate workareaStart
       frictionAirDefault b =
     (let lid = bodyLayerId b;
          io = bodyInOut b;
          st = checkInOutStatus io nextCompFrame compFramerate workareaStart
      in if isDisabled st then Inr (applyDisabledState b)
         else
           andThen
             (if \<not> inPointAfterWorkarea st then Inr (applyEnabledState b (isStatic b))
              else if isAtInPoint st then handleInPointActivation b lid plan currentCompIdx
              else Inr b)
             (\<lambda>b1.
                (let b2 = (if \<not> isDisabled st \<and> \<not> isStatic b1 then Sleeping_set b1 False else b1)
                 in andThen
                      (forcePosition b2 lid plan currentCompIdx expectedCompFrames
                         SIMULATION_FPS compFramerate)
                      (\<lambda>b3.
                         (let b4 = forceRotation b3 lid plan currentCompIdx expectedCompFrames
                                     SIMULATION_FPS compFramerate;
                              b5 = forceScale b4 lid plan currentCompIdx;
                              b6 = updatePhysicsProperties b5 lid plan currentCompIdx
                                     frictionAirDefault
                          in handleBodyTypeSwitch b6 lid plan currentCompIdx (isDisabled st))))))"

text \<open>\<open>forEach\<close> with a callback that can throw: the first exception ends the iteration.\<close>

fun forEachBody :: "(body \<Rightarrow> error + body) \<Rightarrow> body list \<Rightarrow> error + body list" where
  "forEachBody f [] = Inr []"
| "forEachBody f (b # bs) =
     (case f b of
        Inl e \<Rightarrow> Inl e
      | Inr b' \<Rightarrow> (case forEachBody f bs of Inl e \<Rightarrow> Inl e | Inr bs' \<Rightarrow> Inr (b' # bs')))"

text \<open>
  The state of the loop over the physics frames: the engine, the frames captured so far
  and the next composition frame to capture.
\<close>

record loopState =
  ls_engine :: engine
  ls_frames :: "frameData list"
  ls_nextCompFrame :: nat

text \<open>
  One iteration of the loop, for the physics frame \<open>physicsFrame\<close>. \<open>engineUpdate\<close> is
  \<open>Engine.update\<close> of the physics library, which integrates the world by the given
  number of milliseconds; the runner is defined for any such function.
\<close>

definition physicsTick ::
  "(engine \<Rightarrow> real \<Rightarrow> engine) \<Rightarrow> animationPlan option \<Rightarrow> compositionData option \<Rightarrow> real \<times> real
     \<Rightarrow> real \<Rightarrow> int \<Rightarrow> int \<Rightarrow> loopState \<Rightarrow> error + loopState" where
  "physicsTick engineUpdate plan cdata workarea compFramerate expectedCompFrames physicsFrame st =
     (let samplingRatio = SIMULATION_FPS / compFramerate;
          nextCompFrame = ls_nextCompFrame st;
          currentCompIdx = nextCompFrame - 1;
          tsMs = timestamp (ls_engine st);
          compIdxTime = nat (max 0 \<lfloor>(tsMs / 1000) * compFramerate\<rfloor>);
          gr = updateGravity (ls_engine st) cdata compIdxTime;
          frictionAirDefault = snd gr
      in andThen
           (case plan of
              None \<Rightarrow> Inr (fst gr)
            | Some pl \<Rightarrow>
                andThen
                  (forEachBody
                     (processBody pl (int nextCompFrame) currentCompIdx expectedCompFrames
                        compFramerate (fst workarea) frictionAirDefault)
                     (world_bodies (fst gr)))
                  (\<lambda>bs. Inr ((fst gr)\<lparr>world_bodies := bs\<rparr>)))
           (\<lambda>e1.
              (let e2 = engineUpdate e1 SIMULATION_DELTA;
                   expectedPhysicsFrame = js_round (real nextCompFrame * samplingRatio)
               in if physicsFrame = expectedPhysicsFrame \<and> int nextCompFrame \<le> expectedCompFrames
                  then
                    (let currentTime = fst workarea + real nextCompFrame / compFramerate
                     in Inr \<lparr>ls_engine = e2,
                             ls_frames = ls_frames st @ [captureFrame e2 currentTime],
                             ls_nextCompFrame = nextCompFrame + 1\<rparr>)
                  else Inr (st\<lparr>ls_engine := e2\<rparr>))))"

text \<open>The \<open>for\<close> loop over the physics frames, stopping at the first exception.\<close>

fun runTicks :: "(int \<Rightarrow> loopState \<Rightarrow> error + loopState) \<Rightarrow> int list \<Rightarrow> loopState \<Rightarrow> error + loopState" where
  "runTicks tick [] st = Inr st"
| "runTicks tick (physicsFrame # rest) st =
     (case tick physicsFrame st of Inl e \<Rightarrow> Inl e | Inr st' \<Rightarrow> runTicks tick rest st')"

text \<open>
  \<open>calculateAllFrames\<close>: the frames that are published when the run completes. The lookup
  of the composition reads \<open>compData[...]\<close>, which throws for null data and a non-null
  composition id.
\<close>

definition calculateAllFrames ::
  "(engine \<Rightarrow> real \<Rightarrow> engine) \<Rightarrow> engine \<Rightarrow> animationPlan option \<Rightarrow> nat option
     \<Rightarrow> projectCompositions option \<Rightarrow> real \<times> real \<Rightarrow> real \<Rightarrow> error + frameData list" where
  "calculateAllFrames engineUpdate engine0 plan currentCompId compData workarea compFramerate =
     (let workareaDurationSeconds = snd workarea - fst workarea;
          totalPhysicsFrames = \<lceil>workareaDurationSeconds * SIMULATION_FPS\<rceil>;
          e0 = engine0\<lparr>timestamp := 0\<rparr>;
          frames0 = [captureFrame e0 (fst workarea)];
          expectedCompFrames = js_round (workareaDurationSeconds * compFramerate)
      in andThen
           (case currentCompId of
              None \<Rightarrow> Inr None
            | Some cid \<Rightarrow> (case compData of None \<Rightarrow> Inl TypeError | Some data \<Rightarrow> Inr (data cid)))
           (\<lambda>cdata.
              andThen
                (runTicks
                   (physicsTick engineUpdate plan cdata workarea compFramerate expectedCompFrames)
                   [0..totalPhysicsFrames]
                   \<lparr>ls_engine = e0, ls_frames = frames0, ls_nextCompFrame = 1\<rparr>)
                (\<lambda>st. Inr (ls_frames st))))"


text \<open>
  The counters of the loop on their own: the composition frames that are captured while the
  loop runs through the given physics frames, starting with \<open>nextCompFrame\<close>.
\<close>

fun capturedFrames :: "real \<Rightarrow> int \<Rightarrow> int list \<Rightarrow> nat \<Rightarrow> nat list" where
  "capturedFrames samplingRatio expectedCompFrames [] nextCompFrame = []"
| "capturedFrames samplingRatio expectedCompFrames (physicsFrame # rest) nextCompFrame =
     (if physicsFrame = js_round (real nextCompFrame * samplingRatio)
         \<and> int nextCompFrame \<le> expectedCompFrames
      then nextCompFrame # capturedFrames samplingRatio expectedCompFrames rest (nextCompFrame + 1)
      else capturedFrames samplingRatio expectedCompFrames rest nextCompFrame)"


section \<open>Geometry (utils/geometry.ts)\<close>

text \<open>A point \<open>{x, y}\<close> whose coordinates may be non-finite.\<close>

type_synonym jspoint = "jsnum \<times> jsnum"

text \<open>The validation that \<open>combineVertices\<close> applies to a vertex set.\<close>

definition validVertex :: "jspoint \<Rightarrow> bool" where
  "validVertex v = (isFiniteNum (fst v) \<and> isFiniteNum (snd v))"

definition validVertexSet :: "jspoint list \<Rightarrow> bool" where
  "validVertexSet vs = (length vs \<ge> 3 \<and> list_all validVertex vs)"

text \<open>
  \<open>combineVertices\<close>: no set gives the empty list; a single set is returned if it is valid;
  of several sets the valid ones are filtered and the first of them is returned.
\<close>

definition combineVertices :: "jspoint list list \<Rightarrow> jspoint list" where
  "combineVertices setsOfVertices =
     (if length setsOfVertices = 0 then []
      else if length setsOfVertices = 1 then
        (let vertices = setsOfVertices ! 0 in
         if length vertices < 3 then []
         else if list_ex (\<lambda>v. \<not> validVertex v) vertices then []
         else vertices)
      else
        (let validSets = filter validVertexSet setsOfVertices in
         if length validSets = 0 then [] else validSets ! 0))"


text \<open>A point with finite coordinates as a pair of reals; \<open>None\<close> for any other point.\<close>

fun finitePoint :: "jspoint \<Rightarrow> vec2 option" where
  "finitePoint (Num a, Num b) = Some (a, b)"
| "finitePoint _ = None"

text \<open>All points of a list, if every one of them is finite.\<close>

fun finitePoints :: "jspoint list \<Rightarrow> vec2 list option" where
  "finitePoints [] = Some []"
| "finitePoints (v # vs) =
     (case finitePoint v of
        None \<Rightarrow> None
      | Some q \<Rightarrow> (case finitePoints vs of None \<Rightarrow> None | Some qs \<Rightarrow> Some (q # qs)))"

text \<open>
  \<open>Array.prototype.sort\<close> with a comparator: the elements in ascending order of the
  comparator, elements that compare equal in their original order.
\<close>

fun insertBy :: "('a \<Rightarrow> 'a \<Rightarrow> real) \<Rightarrow> 'a \<Rightarrow> 'a list \<Rightarrow> 'a list" where
  "insertBy cmp x [] = [x]"
| "insertBy cmp x (y # ys) = (if cmp x y \<le> 0 then x # y # ys else y # insertBy cmp x ys)"

definition sortBy :: "('a \<Rightarrow> 'a \<Rightarrow> real) \<Rightarrow> 'a list \<Rightarrow> 'a list" where
  "sortBy cmp xs = foldr (insertBy cmp) xs []"


subsection \<open>Resampling a Bezier path\<close>

text \<open>A path vertex of the host: a position and two optional tangent handles.\<close>

record vertex =
  vertex_position :: jspoint
  inTangent :: "jspoint option"
  outTangent :: "jspoint option"

definition MIN_POINTS :: nat where
  "MIN_POINTS = 3"

definition MIN_AREA :: real where
  "MIN_AREA = 0.1"

text \<open>\<open>calculateArea\<close>, the shoelace formula.\<close>

definition calculateArea :: "vec2 list \<Rightarrow> real" where
  "calculateArea points =
     \<bar>\<Sum>i\<leftarrow>[0..<length points].
         fst (points ! i) * snd (points ! ((i + 1) mod length points))
       - fst (points ! ((i + 1) mod length points)) * snd (points ! i)\<bar> / 2"

text \<open>
  The control point next to an end point \<open>p\<close> of a segment: the tangent handle if it is
  finite and at most \<open>maxOffset\<close> away from \<open>p\<close>, otherwise \<open>p\<close> itself.
\<close>

definition controlPoint :: "real \<Rightarrow> vec2 \<Rightarrow> jspoint option \<Rightarrow> vec2" where
  "controlPoint maxOffset p tangent =
     (case tangent of
        None \<Rightarrow> p
      | Some tg \<Rightarrow>
          (case finitePoint tg of
             None \<Rightarrow> p
           | Some t \<Rightarrow>
               if sqrt ((fst t - fst p)\<^sup>2 + (snd t - snd p)\<^sup>2) \<le> maxOffset then t else p))"

text \<open>
  The collinearity filter: a sampled point is skipped when the cross product of the last
  accepted step and the step to the point is below \<open>0.005\<close> in absolute value.
\<close>

definition collinearSkip :: "vec2 list \<Rightarrow> vec2 \<Rightarrow> bool" where
  "collinearSkip resampled point =
     (length resampled \<ge> 2 \<and>
      (let p1 = resampled ! (length resampled - 2);
           p2 = resampled ! (length resampled - 1);
           v1x = fst p2 - fst p1; v1y = snd p2 - snd p1;
           v2x = fst point - fst p2; v2y = snd point - snd p2
       in \<bar>v1x * v2y - v1y * v2x\<bar> < 0.005))"

fun pushSamples :: "vec2 list \<Rightarrow> vec2 list \<Rightarrow> vec2 list" where
  "pushSamples resampled [] = resampled"
| "pushSamples resampled (point # rest) =
     pushSamples (if collinearSkip resampled point then resampled else resampled @ [point]) rest"

text \<open>
  One segment of the path, from the vertex at \<open>p0\<close> to the vertex at \<open>p3\<close>. \<open>getLUT\<close> is
  the curve library: for the four control points and a number of steps it returns the
  lookup table of the cubic curve, or throws (\<open>None\<close>); then the source falls back to
  \<open>samplesPerSegment\<close> points on the straight line. All but the last point of the table go
  through the collinearity filter.
\<close>

definition resampleSegment ::
  "(vec2 \<Rightarrow> vec2 \<Rightarrow> vec2 \<Rightarrow> vec2 \<Rightarrow> nat \<Rightarrow> vec2 list option) \<Rightarrow> nat \<Rightarrow> real
     \<Rightarrow> vec2 \<times> jspoint option \<Rightarrow> vec2 \<times> jspoint option \<Rightarrow> vec2 list \<Rightarrow> vec2 list" where
  "resampleSegment getLUT samplesPerSegment maxOffset current next resampled =
     (let p0 = fst current;
          p3 = fst next;
          p1 = controlPoint maxOffset p0 (snd current);
          p2 = controlPoint maxOffset p3 (snd next)
      in case getLUT p0 p1 p2 p3 samplesPerSegment of
           Some lut \<Rightarrow> pushSamples resampled (butlast lut)
         | None \<Rightarrow>
             resampled @
               map (\<lambda>j. (fst p0 + (real j / real samplesPerSegment) * (fst p3 - fst p0),
                          snd p0 + (real j / real samplesPerSegment) * (snd p3 - snd p0)))
                 [0..<samplesPerSegment])"

text \<open>
  The first phase of \<open>resampleBezierPath\<close>: validation of the vertices, sampling of all
  segments including the closing one, and validation of the sampled points (at least 3,
  area at least \<open>MIN_AREA\<close>). \<open>None\<close> stands for the early \<open>return []\<close>. Coordinates are
  reals here, so the test for non-finite sampled points has nothing to reject.
\<close>

definition resampleStage ::
  "(vec2 \<Rightarrow> vec2 \<Rightarrow> vec2 \<Rightarrow> vec2 \<Rightarrow> nat \<Rightarrow> vec2 list option) \<Rightarrow> vertex list \<Rightarrow> nat
     \<Rightarrow> vec2 list option" where
  "resampleStage getLUT vertices samplesPerSegment =
     (if length vertices < 2 then None
      else
        (case finitePoints (map vertex_position vertices) of
           None \<Rightarrow> None
         | Some positions \<Rightarrow>
             (let minX = Min (set (map fst positions));
                  maxX = Max (set (map fst positions));
                  minY = Min (set (map snd positions));
                  maxY = Max (set (map snd positions));
                  maxDimension = max (maxX - minX) (maxY - minY);
                  maxOffset = maxDimension * 2;
                  n = length vertices;
                  resampled =
                    fold (\<lambda>i res.
                            resampleSegment getLUT samplesPerSegment maxOffset
                              (positions ! i, outTangent (vertices ! i))
                              (positions ! ((i + 1) mod n), inTangent (vertices ! ((i + 1) mod n)))
                              res)
                      [0..<n] []
              in if length resampled < 3 then None
                 else if calculateArea resampled < MIN_AREA then None
                 else Some resampled)))"

text \<open>
  A sampled point is important if it is the first or the last one, or if the path turns
  there: the dot product of the normalised steps into and out of the point is below \<open>0.98\<close>.
\<close>

definition isImportant :: "vec2 list \<Rightarrow> nat \<Rightarrow> bool" where
  "isImportant points i =
     (if i = 0 \<or> i = length points - 1 then True
      else
        (let prev = points ! (i - 1); curr = points ! i; next = points ! (i + 1);
             v1x = fst curr - fst prev; v1y = snd curr - snd prev;
             v2x = fst next - fst curr; v2y = snd next - snd curr;
             v1len = sqrt (v1x * v1x + v1y * v1y);
             v2len = sqrt (v2x * v2x + v2y * v2y)
         in v1len > 0 \<and> v2len > 0
            \<and> (v1x / v1len) * (v2x / v2len) + (v1y / v1len) * (v2y / v2len) < 0.98))"

definition importantPoints :: "vec2 list \<Rightarrow> vec2 list" where
  "importantPoints resampled =
     map (\<lambda>i. resampled ! i) (filter (isImportant resampled) [0..<length resampled])"

text \<open>\<open>findIndex\<close> of the first point with the given coordinates, \<open>-1\<close> if there is none.\<close>

fun findIndex :: "vec2 list \<Rightarrow> vec2 \<Rightarrow> int" where
  "findIndex [] q = -1"
| "findIndex (r # rs) q =
     (if r = q then 0 else (let k = findIndex rs q in if k < 0 then -1 else k + 1))"

text \<open>
  The second phase: simplification with tolerance 4 by the simplification library
  (\<open>simplify\<close>), re-insertion of the important points that it removed, in path order, and the
  fallback to the unsimplified points when fewer than \<open>MIN_POINTS\<close> are left.
\<close>

definition simplifyStage :: "(vec2 list \<Rightarrow> real \<Rightarrow> bool \<Rightarrow> vec2 list) \<Rightarrow> vec2 list \<Rightarrow> vec2 list" where
  "simplifyStage simplify resampled =
     (let important = importantPoints resampled;
          useConstraints = (length important \<ge> MIN_POINTS
                            \<and> real (length important) < real (length resampled) * 0.5);
          simplified0 = simplify resampled 4 True;
          simplified =
            (if useConstraints \<and> length important > 0 then
               (let missingImportantPoints = filter (\<lambda>q. q \<notin> set simplified0) important
                in if length missingImportantPoints > 0
                   then sortBy (\<lambda>a b. real_of_int (findIndex resampled a - findIndex resampled b))
                          (simplified0 @ missingImportantPoints)
                   else simplified0)
             else simplified0)
      in if length simplified < MIN_POINTS then resampled else simplified)"

definition resampleBezierPath ::
  "(vec2 \<Rightarrow> vec2 \<Rightarrow> vec2 \<Rightarrow> vec2 \<Rightarrow> nat \<Rightarrow> vec2 list option)
     \<Rightarrow> (vec2 list \<Rightarrow> real \<Rightarrow> bool \<Rightarrow> vec2 list) \<Rightarrow> vertex list \<Rightarrow> nat \<Rightarrow> vec2 list" where
  "resampleBezierPath getLUT simplify vertices samplesPerSegment =
     (case resampleStage getLUT vertices samplesPerSegment of
        None \<Rightarrow> []
      | Some resampled \<Rightarrow> simplifyStage simplify resampled)"


subsection \<open>Convex hull and decomposition\<close>

text \<open>
  The hull is computed on double-precision numbers. The rounding of the result of an
  arithmetic operation to a double is the parameter \<open>rnd\<close> of the definitions below, and
  \<open>Math.atan2\<close>, whose result the engine approximates, is the parameter \<open>at2\<close>; comparisons
  of doubles are exact. With \<open>noRounding\<close> and \<open>atan2\<close> for them the computation is the one
  over the real numbers.
\<close>

text \<open>
  The orientation of three points: positive for a left turn from \<open>o'\<close> over \<open>a\<close> to \<open>b\<close>,
  zero for points on a line.
\<close>

definition orient :: "vec2 \<Rightarrow> vec2 \<Rightarrow> vec2 \<Rightarrow> real" where
  "orient o' a b =
     (fst a - fst o') * (snd b - snd o') - (snd a - snd o') * (fst b - fst o')"

text \<open>
  \<open>crossProduct\<close> of utils/maths.ts,
  \<open>(a[0] - o[0]) * (b[1] - o[1]) - (a[1] - o[1]) * (b[0] - o[0])\<close>, every operation rounded.
\<close>

definition crossProduct :: "(real \<Rightarrow> real) \<Rightarrow> vec2 \<Rightarrow> vec2 \<Rightarrow> vec2 \<Rightarrow> real" where
  "crossProduct rnd o' a b =
     rnd (rnd (rnd (fst a - fst o') * rnd (snd b - snd o'))
          - rnd (rnd (snd a - snd o') * rnd (fst b - fst o')))"

text \<open>The angle of the direction \<open>(x, y)\<close>, which \<open>Math.atan2(y, x)\<close> approximates.\<close>

definition atan2 :: "real \<Rightarrow> real \<Rightarrow> real" where
  "atan2 y x =
     (if x > 0 then arctan (y / x)
      else if x < 0 then (if y \<ge> 0 then arctan (y / x) + pi else arctan (y / x) - pi)
      else if y > 0 then pi / 2
      else if y < 0 then - pi / 2
      else 0)"

text \<open>The index of the lowest point, the leftmost of the lowest ones.\<close>

definition bottomIndex :: "vec2 list \<Rightarrow> nat" where
  "bottomIndex points =
     fold (\<lambda>i bottom.
             if snd (points ! i) < snd (points ! bottom)
                \<or> (snd (points ! i) = snd (points ! bottom) \<and> fst (points ! i) < fst (points ! bottom))
             then i else bottom)
       [1..<length points] 0"

text \<open>
  The comparator of the polar sort around the pivot: the difference of the angles, and
  for equal angles the difference of the squared distances, \<open>Math.pow(dx, 2) + Math.pow(dy, 2)\<close>.
\<close>

definition polarCompare ::
  "(real \<Rightarrow> real) \<Rightarrow> (real \<Rightarrow> real \<Rightarrow> real) \<Rightarrow> vec2 \<Rightarrow> vec2 \<Rightarrow> vec2 \<Rightarrow> real" where
  "polarCompare rnd at2 pivot a b =
     (let angleA = at2 (rnd (snd a - snd pivot)) (rnd (fst a - fst pivot));
          angleB = at2 (rnd (snd b - snd pivot)) (rnd (fst b - fst pivot))
      in if angleA \<noteq> angleB then rnd (angleA - angleB)
         else
           (let distA = rnd (rnd ((rnd (fst a - fst pivot))\<^sup>2) + rnd ((rnd (snd a - snd pivot))\<^sup>2));
                distB = rnd (rnd ((rnd (fst b - fst pivot))\<^sup>2) + rnd ((rnd (snd b - snd pivot))\<^sup>2))
            in rnd (distA - distB)))"

text \<open>
  The scan. The stack is kept with its top at the head of the list; \<open>popNonLeft\<close> is
  the \<open>while\<close> loop that pops the top as long as the last two points and the new one do
  not make a left turn.
\<close>

fun popNonLeft :: "(real \<Rightarrow> real) \<Rightarrow> vec2 list \<Rightarrow> vec2 \<Rightarrow> vec2 list" where
  "popNonLeft rnd (hd1 # hd2 # rest) point =
     (if crossProduct rnd hd2 hd1 point \<le> 0 then popNonLeft rnd (hd2 # rest) point
      else hd1 # hd2 # rest)"
| "popNonLeft rnd stack point = stack"

definition hullScan :: "(real \<Rightarrow> real) \<Rightarrow> vec2 list \<Rightarrow> vec2 list \<Rightarrow> vec2 list" where
  "hullScan rnd stack sortedPoints =
     fold (\<lambda>point st. point # popNonLeft rnd st point) sortedPoints stack"

definition computeConvexHull ::
  "(real \<Rightarrow> real) \<Rightarrow> (real \<Rightarrow> real \<Rightarrow> real) \<Rightarrow> vec2 list \<Rightarrow> vec2 list" where
  "computeConvexHull rnd at2 points =
     (if length points < 3 then points
      else
        (let bottom = bottomIndex points;
             swapped = points[0 := points ! bottom, bottom := points ! 0];
             pivot = swapped ! 0;
             sortedPoints = sortBy (polarCompare rnd at2 pivot) (tl swapped)
         in rev (hullScan rnd [pivot] sortedPoints)))"

text \<open>Arithmetic without rounding error.\<close>

definition noRounding :: "real \<Rightarrow> real" where
  "noRounding x = x"

text \<open>
  Rounding to the nearest double, ties to the even significand: a double has a significand
  of 53 bits, so the doubles between \<open>2^e\<close> and \<open>2^(e + 1)\<close> are the multiples of
  \<open>2^(e - 52)\<close>. The bounds of the exponent (overflow to infinity, subnormal numbers) are
  left out.
\<close>

definition roundHalfEven :: "real \<Rightarrow> int" where
  "roundHalfEven y =
     (let f = \<lfloor>y\<rfloor>
      in if y - of_int f < 1 / 2 then f
         else if y - of_int f > 1 / 2 then f + 1
         else if even f then f else f + 1)"

definition roundDouble :: "real \<Rightarrow> real" where
  "roundDouble x =
     (if x = 0 then 0
      else (let u = 2 powr of_int (\<lfloor>log 2 \<bar>x\<bar>\<rfloor> - 52)
            in u * of_int (roundHalfEven (x / u))))"


text \<open>
  A point lies inside or on a convex part given in counterclockwise order if it is to the
  left of, or on, the line through every edge of the part, the closing edge included.
\<close>

definition insideOrOn :: "vec2 \<Rightarrow> vec2 list \<Rightarrow> bool" where
  "insideOrOn q part =
     (\<forall>i < length part. orient (part ! i) (part ! ((i + 1) mod length part)) q \<ge> 0)"


definition sqDist :: "vec2 \<Rightarrow> vec2 \<Rightarrow> real" where
  "sqDist pivot p = (fst p - fst pivot)\<^sup>2 + (snd p - snd pivot)\<^sup>2"


fun convexChain :: "vec2 \<Rightarrow> vec2 list \<Rightarrow> bool" where
  "convexChain pivot (a # b # c # rest) =
     (orient c b a > 0 \<and> orient pivot b a > 0 \<and> convexChain pivot (b # c # rest))"
| "convexChain pivot [a, b] = (b = pivot)"
| "convexChain pivot [a] = (a = pivot)"
| "convexChain pivot [] = False"




subsection \<open>The algorithms of the curve, simplification and decomposition libraries\<close>

text \<open>
  The libraries are not part of the repository. The definitions below follow their published
  algorithms and serve as concrete instances of the parameters above: the lookup table of a
  cubic Bezier curve at \<open>steps + 1\<close> evenly spaced parameters; the Douglas-Peucker
  simplification with the squared distance to a segment; the winding correction and the
  simplicity test by pairwise segment intersection.
\<close>

definition bezierPoint :: "vec2 \<Rightarrow> vec2 \<Rightarrow> vec2 \<Rightarrow> vec2 \<Rightarrow> real \<Rightarrow> vec2" where
  "bezierPoint p0 p1 p2 p3 t =
     (let mt = 1 - t; a = mt * mt * mt; b = mt * mt * t * 3; c = mt * t * t * 3; d = t * t * t
      in (a * fst p0 + b * fst p1 + c * fst p2 + d * fst p3,
          a * snd p0 + b * snd p1 + c * snd p2 + d * snd p3))"

definition bezierLUT :: "vec2 \<Rightarrow> vec2 \<Rightarrow> vec2 \<Rightarrow> vec2 \<Rightarrow> nat \<Rightarrow> vec2 list option" where
  "bezierLUT p0 p1 p2 p3 steps =
     Some (map (\<lambda>i. bezierPoint p0 p1 p2 p3 (real i / real steps)) [0..<steps + 1])"

definition getSqSegDist :: "vec2 \<Rightarrow> vec2 \<Rightarrow> vec2 \<Rightarrow> real" where
  "getSqSegDist q p1 p2 =
     (let x = fst p1; y = snd p1; dx = fst p2 - x; dy = snd p2 - y;
          nearest =
            (if dx \<noteq> 0 \<or> dy \<noteq> 0 then
               (let t = ((fst q - x) * dx + (snd q - y) * dy) / (dx * dx + dy * dy)
                in if t > 1 then p2
                   else if t > 0 then (x + dx * t, y + dy * t) else (x, y))
             else (x, y))
      in (fst q - fst nearest) * (fst q - fst nearest)
         + (snd q - snd nearest) * (snd q - snd nearest))"

text \<open>The farthest point strictly between \<open>first\<close> and \<open>last\<close>, if farther than the tolerance.\<close>

fun farthest :: "vec2 list \<Rightarrow> nat \<Rightarrow> nat \<Rightarrow> nat list \<Rightarrow> real \<times> nat option \<Rightarrow> real \<times> nat option" where
  "farthest points first_i last_i [] acc = acc"
| "farthest points first_i last_i (i # rest) acc =
     (let sqDist = getSqSegDist (points ! i) (points ! first_i) (points ! last_i)
      in farthest points first_i last_i rest (if sqDist > fst acc then (sqDist, Some i) else acc))"

function simplifyDPStep :: "vec2 list \<Rightarrow> nat \<Rightarrow> nat \<Rightarrow> real \<Rightarrow> vec2 list" where
  "simplifyDPStep points first_i last_i sqTolerance =
     (case snd (farthest points first_i last_i [first_i + 1..<last_i] (sqTolerance, None)) of
        None \<Rightarrow> []
      | Some index \<Rightarrow>
          if first_i < index \<and> index < last_i then
            (if index - first_i > 1 then simplifyDPStep points first_i index sqTolerance else [])
              @ [points ! index]
              @ (if last_i - index > 1 then simplifyDPStep points index last_i sqTolerance else [])
          else [])"
  by pat_completeness auto
termination
  by (relation "measure (\<lambda>(points, first_i, last_i, sqTolerance). last_i - first_i)") auto

declare simplifyDPStep.simps [simp del]

definition simplifyDouglasPeucker :: "vec2 list \<Rightarrow> real \<Rightarrow> bool \<Rightarrow> vec2 list" where
  "simplifyDouglasPeucker points tolerance highestQuality =
     (if length points \<le> 2 then points
      else [points ! 0]
             @ simplifyDPStep points 0 (length points - 1) (tolerance * tolerance)
             @ [points ! (length points - 1)])"





section \<open>Example data\<close>

text \<open>A dynamic body at the origin, as the engine creates it, with an empty plugin.\<close>

definition exampleBody :: body where
  "exampleBody = \<lparr>body_id = 1, position = (0, 0), velocity = (3, 4), angle = 0,
     angularVelocity = Num 1, isStatic = False, isSleeping = False, mass = 2, inertia = 5,
     density = 0.001, friction = 0.1, frictionAir = 0.01, restitution = 0.1,
     shapeScale = (1, 1),
     render = Some \<lparr>opacity = 1, fillStyle = Some ''#e9462f'', strokeStyle = Some ''#e9462f''\<rparr>,
     partRenders = [], category = 1, mask = 65535, plugin = Some emptyPlugin\<rparr>"

text \<open>
  A layer that is visible from second 1 to second 2, and a plan in which its position is
  keyframed up to composition frame 2.
\<close>

definition layerBody :: body where
  "layerBody = exampleBody\<lparr>plugin := Some (emptyPlugin\<lparr>layerData :=
     Some \<lparr>inOut = [1, 2], layerId = 7, isStaticInitial = Some False\<rparr>\<rparr>)\<rparr>"

definition examplePosition :: "vec2 planSeries" where
  "examplePosition = \<lparr>pre = (-5, -5), vals = [(0, 0), (10, 5), (30, 20), (30, 20)],
     last_idx = Some 2, hold = Some False\<rparr>"

definition exampleLayerPlan :: layerPlan where
  "exampleLayerPlan = \<lparr>lp_name = ''ball'', lp_position = Some examplePosition,
     lp_rotation = None, lp_scale = None, lp_anchorPoint = None, lp_density = None,
     lp_friction = None, lp_frictionAir = None, lp_restitution = None, lp_bodyType = None\<rparr>"

definition examplePlan :: animationPlan where
  "examplePlan = \<lparr>physicsStartFrame = 2, plan_layers = [7 \<mapsto> exampleLayerPlan]\<rparr>"

text \<open>
  Compositions for the plan builder: two layers with position keyframes ending at frames 2
  and 1, the first also with a rotation series ending at frame 3; the same with the rotation
  series removed; and a composition whose only position keyframe lies 60 frames before the
  work area.
\<close>

definition noProperties :: animatedProperties where
  "noProperties = \<lparr>ap_position = None, ap_rotation = None, ap_scale = None,
     ap_anchorPoint = None, ap_bodyType = None, ap_density = None, ap_friction = None,
     ap_frictionAir = None, ap_restitution = None\<rparr>"

definition keyedSeries :: "'a \<Rightarrow> 'a list \<Rightarrow> int \<Rightarrow> 'a animatedSeries" where
  "keyedSeries p vs k =
     \<lparr>preValue = p, values_of = vs, lastKeyFrame = Some \<lparr>frame = k, isHold = False\<rparr>\<rparr>"

definition keyedLayer :: "animatedProperties \<Rightarrow> layer" where
  "keyedLayer ap = \<lparr>name = ''layer'', layer_isStatic = None, layer_inOut = None,
     animatedProperties = Some ap, startPropertiesValues = None\<rparr>"

definition compA :: compositionData where
  "compA = \<lparr>layers =
       [(1, keyedLayer (noProperties\<lparr>
              ap_position := Some (keyedSeries (0, 0) [(0, 0), (1, 1), (2, 2)] 2),
              ap_rotation := Some (keyedSeries 0 [0, 10, 20, 30] 3)\<rparr>)),
        (2, keyedLayer (noProperties\<lparr>
              ap_position := Some (keyedSeries (5, 5) [(5, 5), (6, 6)] 1)\<rparr>))],
     gravityAngle = None, gravityScale = None, drag = None,
     animatedGravityProperties = None\<rparr>"

definition compB :: compositionData where
  "compB = \<lparr>layers =
       [(1, keyedLayer (noProperties\<lparr>
              ap_position := Some (keyedSeries (0, 0) [(0, 0), (1, 1), (2, 2)] 2)\<rparr>)),
        (2, keyedLayer (noProperties\<lparr>
              ap_position := Some (keyedSeries (5, 5) [(5, 5), (6, 6)] 1)\<rparr>))],
     gravityAngle = None, gravityScale = None, drag = None,
     animatedGravityProperties = None\<rparr>"

definition compEarlyKey :: compositionData where
  "compEarlyKey = \<lparr>layers =
       [(1, keyedLayer (noProperties\<lparr>
              ap_position := Some (keyedSeries (0, 0) [(3, 3), (3, 3)] (-60))\<rparr>))],
     gravityAngle = None, gravityScale = None, drag = None,
     animatedGravityProperties = None\<rparr>"

text \<open>Project data in which composition 1 is one of the compositions above.\<close>

definition projectA :: projectCompositions where
  "projectA = [1 \<mapsto> compA]"

definition projectB :: projectCompositions where
  "projectB = projectA(1 \<mapsto> compB)"

definition projectEarlyKey :: projectCompositions where
  "projectEarlyKey = [1 \<mapsto> compEarlyKey]"

text \<open>An engine with an empty world, and an update that only advances the clock.\<close>

definition emptyEngine :: engine where
  "emptyEngine = \<lparr>timestamp = 0, gravity_x = 0, gravity_y = 1, gravity_scale = 0.001,
     world_bodies = []\<rparr>"

definition clockOnly :: "engine \<Rightarrow> real \<Rightarrow> engine" where
  "clockOnly e delta = e\<lparr>timestamp := timestamp e + delta\<rparr>"

text \<open>
  A world that holds the layer body, and the state of the loop before the tick that is to
  capture composition frame 2.
\<close>

definition layerWorld :: engine where
  "layerWorld = emptyEngine\<lparr>world_bodies := [layerBody]\<rparr>"

definition layerLoopState :: loopState where
  "layerLoopState = \<lparr>ls_engine = layerWorld, ls_frames = [], ls_nextCompFrame = 2\<rparr>"


text \<open>
  A path of five corners without tangent handles, a thin quadrilateral with one more corner on
  its long axis; the points that resampling with 20 samples per segment gives for it; and
  what the simplification leaves of them.
\<close>

definition plainVertex :: "vec2 \<Rightarrow> vertex" where
  "plainVertex q =
     \<lparr>vertex_position = (Num (fst q), Num (snd q)), inTangent = None, outTangent = None\<rparr>"

definition sliverPath :: "vertex list" where
  "sliverPath = map plainVertex [(0, 0), (50, 0.2), (100, 0), (60, -0.2), (50, 0)]"

definition sliverResampled :: "vec2 list" where
  "sliverResampled = [(0, 0), (29 / 80, 29 / 20000), (4243 / 80, 3757 / 20000),
     (276 / 5, 112 / 625), (9971 / 100, - (29 / 20000)), (2472 / 25, - (7 / 1250)),
     (1493 / 25, - (243 / 1250)), (23757 / 400, - (3757 / 20000)), (243 / 5, 0), (3757 / 80, 0)]"

definition sliverSimplified :: "vec2 list" where
  "sliverSimplified = [(0, 0), (9971 / 100, - (29 / 20000)), (3757 / 80, 0)]"





text \<open>
  Four points with coordinates near \<open>2^27\<close>: seen from the origin the second and the third
  lie in almost the same direction, and the turn to the left from the second to the third
  has the cross product 1.
\<close>

definition nearlyFlat :: "vec2 list" where
  "nearlyFlat = [(0, 0), (134217728, 134217727), (134217729, 134217728), (0, 134217728)]"


definition triangleA :: "jspoint list" where
  "triangleA = [(Num 0, Num 0), (Num 4, Num 0), (Num 0, Num 3)]"

definition triangleB :: "jspoint list" where
  "triangleB = [(Num 10, Num 10), (Num 14, Num 10), (Num 10, Num 13)]"

definition brokenSet :: "jspoint list" where
  "brokenSet = [(Num 0, Num 0), (NaN, Num 1), (Num 2, PosInf)]"


section \<open>Verified properties\<close>

lemma andThen_simps [simp]: "andThen (Inr v) f = f v" "andThen (Inl e) f = Inl e"
  by (simp_all add: andThen_def)

lemma andThen_Inr: "andThen r f = Inr v \<Longrightarrow> \<exists>u. r = Inr u \<and> f u = Inr v"
  by (cases r) auto

subsection \<open>Body synthesis\<close>

text \<open>
  Claim C3. In \<open>createMatterBody\<close> the static flag of the compound body and the flag
  \<open>plugin.layerData.isStaticInitial\<close> are both true for every layer whose start body type
  (the \<open>startPropertiesValues\<close> argument) is not 1, whatever the layer's own static flag:
  the else-branch of the conditional is \<open>true || isStatic\<close>.
\<close>

theorem createMatterBody_static_flag:
  assumes "map_option sp_bodyType spv \<noteq> Some 1"
  shows "opt_isStatic (createMatterBody_options lyr lid spv) = True
       \<and> isStaticInitial (opt_layerData (createMatterBody_options lyr lid spv)) = Some True"
  using assms by (simp add: createMatterBody_options_def Let_def)

theorem createMatterBody_static_flag_witness:
  "opt_isStatic (createMatterBody_options
      \<lparr>name = ''ball'', layer_isStatic = Some False, layer_inOut = None,
       animatedProperties = None, startPropertiesValues = None\<rparr> 7
      (Some \<lparr>sp_bodyType = 2, sp_density = 1, sp_friction = 0, sp_frictionAir = 0,
             sp_restitution = 0\<rparr>)) = True
   \<and> isStaticInitial (opt_layerData (createMatterBody_options
      \<lparr>name = ''ball'', layer_isStatic = Some False, layer_inOut = None,
       animatedProperties = None, startPropertiesValues = None\<rparr> 7
      (Some \<lparr>sp_bodyType = 2, sp_density = 1, sp_friction = 0, sp_frictionAir = 0,
             sp_restitution = 0\<rparr>))) = Some True"
  by (rule createMatterBody_static_flag) simp

text \<open>
  Claim C10. \<open>setBodyType\<close> on a body whose plugin has no initial-properties record returns
  the body as it was, in the static and in the dynamic direction: no field is modified.
\<close>

theorem setBodyType_missing_initialProperties:
  assumes "plugin b = None \<or> (\<exists>pl. plugin b = Some pl \<and> initialProperties pl = None)"
  shows "setBodyType b toStatic = b"
  using assms by (auto simp: setBodyType_def)

theorem setBodyType_missing_initialProperties_witness:
  "(plugin exampleBody = None
      \<or> (\<exists>pl. plugin exampleBody = Some pl \<and> initialProperties pl = None))
   \<and> setBodyType exampleBody True = exampleBody
   \<and> setBodyType exampleBody False = exampleBody"
proof -
  have h: "plugin exampleBody = None
      \<or> (\<exists>pl. plugin exampleBody = Some pl \<and> initialProperties pl = None)"
    by (simp add: exampleBody_def emptyPlugin_def)
  show ?thesis
    using h setBodyType_missing_initialProperties [OF h, of True]
      setBodyType_missing_initialProperties [OF h, of False]
    by blast
qed

subsection \<open>Geometry\<close>

text \<open>
  Claim C9. Given two or more vertex sets, \<open>combineVertices\<close> returns the first set that
  passes the validation (at least 3 points, all coordinates finite) unchanged, whatever the
  other sets are, and the result is empty only when no set passes.
\<close>

theorem combineVertices_first_valid:
  assumes "length setsOfVertices \<ge> 2"
  shows "combineVertices setsOfVertices =
           (case find validVertexSet setsOfVertices of None \<Rightarrow> [] | Some vs \<Rightarrow> vs)
       \<and> (combineVertices setsOfVertices = [] \<longleftrightarrow> \<not> list_ex validVertexSet setsOfVertices)"
proof -
  have hd_filter: "(case filter P xs of [] \<Rightarrow> [] | v # _ \<Rightarrow> v) =
      (case find P xs of None \<Rightarrow> [] | Some v \<Rightarrow> v)" for P :: "jspoint list \<Rightarrow> bool" and xs
    by (induction xs) auto
  have cv: "combineVertices setsOfVertices =
      (case filter validVertexSet setsOfVertices of [] \<Rightarrow> [] | v # _ \<Rightarrow> v)"
    using assms by (auto simp: combineVertices_def Let_def split: list.splits)
  have first: "combineVertices setsOfVertices =
      (case find validVertexSet setsOfVertices of None \<Rightarrow> [] | Some vs \<Rightarrow> vs)"
    using cv hd_filter by simp
  have nonempty: "find validVertexSet xs = Some vs \<Longrightarrow> vs \<noteq> []" for xs vs
    by (induction xs) (auto simp: validVertexSet_def split: if_splits)
  have none: "find validVertexSet xs = None \<longleftrightarrow> \<not> list_ex validVertexSet xs" for xs
    by (induction xs) auto
  show ?thesis
  proof (cases "find validVertexSet setsOfVertices")
    case None
    moreover from None have "\<not> list_ex validVertexSet setsOfVertices"
      using none[of setsOfVertices] by simp
    ultimately show ?thesis using first by simp
  next
    case (Some vs)
    then have "vs \<noteq> []" by (rule nonempty)
    moreover have "list_ex validVertexSet setsOfVertices"
      using Some none[of setsOfVertices] by simp
    ultimately show ?thesis using first Some by simp
  qed
qed

theorem combineVertices_first_valid_witness:
  "length [brokenSet, triangleA, triangleB] \<ge> 2
   \<and> combineVertices [brokenSet, triangleA, triangleB] = triangleA
   \<and> combineVertices [brokenSet, triangleA, triangleB] \<noteq> []"
proof -
  have h: "length [brokenSet, triangleA, triangleB] \<ge> 2" by simp
  have v: "\<not> validVertexSet brokenSet" "validVertexSet triangleA"
    by (simp_all add: validVertexSet_def validVertex_def brokenSet_def triangleA_def)
  have ne: "triangleA \<noteq> []" by (simp add: triangleA_def)
  show ?thesis
    using combineVertices_first_valid [OF h] v ne by simp
qed

subsection \<open>Animation plan\<close>

lemma fst_planLayer:
  "fst (planLayer e st) =
     (case positionLastFrame (snd e) of None \<Rightarrow> fst st | Some f \<Rightarrow> max (fst st) f)"
  by (simp add: planLayer_def positionLastFrame_def Let_def split: option.splits)

lemma fst_fold_planLayer:
  "fst (fold planLayer ls st) =
     Max (insert (fst st) (set (List.map_filter (\<lambda>e. positionLastFrame (snd e)) ls)))"
proof (induction ls arbitrary: st)
  case Nil
  then show ?case by (simp add: List.map_filter_simps)
next
  case (Cons e ls)
  show ?case
  proof (cases "positionLastFrame (snd e)")
    case None
    then show ?thesis
      using Cons.IH[of "planLayer e st"] by (simp add: fst_planLayer List.map_filter_simps)
  next
    case (Some f)
    let ?S = "set (List.map_filter (\<lambda>e. positionLastFrame (snd e)) ls)"
    have fin: "finite ?S" by simp
    have "Max (insert (max (fst st) f) ?S) = Max (insert (fst st) (insert f ?S))"
    proof (cases "?S = {}")
      case True
      then show ?thesis by (simp add: max.commute)
    next
      case False
      then show ?thesis using fin by (simp add: max.assoc)
    qed
    then show ?thesis
      using Cons.IH[of "planLayer e st"] Some by (simp add: fst_planLayer List.map_filter_simps)
  qed
qed

lemma map_filter_map: "List.map_filter f xs = List.map_filter id (map f xs)"
  by (induction xs) (auto simp: List.map_filter_simps split: option.splits)

text \<open>
  Claim C4, as stated: the start frame is the maximum of the position last-keyframe frames.
  It fails for a composition whose only position keyframe lies before the work area: the
  host adapter then reports a negative frame (here \<open>-60\<close>), and the builder returns \<open>-1\<close>.
\<close>

theorem buildAnimationPlan_physicsStartFrame_counterexample:
  "physicsStartFrame (buildAnimationPlan (Some 1) (Some projectEarlyKey))
     \<noteq> Max (set (positionLastFrames compEarlyKey))"
  by (simp add: buildAnimationPlan_def projectEarlyKey_def compEarlyKey_def keyedLayer_def
        keyedSeries_def noProperties_def planLayer_def positionLastFrames_def
        positionLastFrame_def List.map_filter_simps Let_def)

text \<open>
  Claim C4, amended. For a non-zero composition id that selects a composition of the project
  data, \<open>physicsStartFrame\<close> is the maximum of \<open>-1\<close> and the \<open>lastKeyFrame.frame\<close> values of
  the position series of the layers of that composition; it is \<open>-1\<close> when no layer has a
  position last keyframe; and it is the same for any composition whose layers have the same
  position last-keyframe frames, whatever their rotation, scale, anchor, density, friction,
  air-friction, restitution and body-type series are.
\<close>

theorem buildAnimationPlan_physicsStartFrame:
  assumes "compId \<noteq> 0" and "data compId = Some cdata"
  shows "physicsStartFrame (buildAnimationPlan (Some compId) (Some data)) =
           Max (insert (-1) (set (positionLastFrames cdata)))
       \<and> (positionLastFrames cdata = [] \<longrightarrow>
            physicsStartFrame (buildAnimationPlan (Some compId) (Some data)) = -1)
       \<and> (map (\<lambda>e. positionLastFrame (snd e)) (layers cdata2) =
            map (\<lambda>e. positionLastFrame (snd e)) (layers cdata) \<longrightarrow>
            physicsStartFrame (buildAnimationPlan (Some compId) (Some (data(compId \<mapsto> cdata2)))) =
            physicsStartFrame (buildAnimationPlan (Some compId) (Some data)))"
proof -
  have eq: "physicsStartFrame (buildAnimationPlan (Some compId) (Some d)) =
           Max (insert (-1) (set (positionLastFrames c)))" if "d compId = Some c" for d c
    using assms(1) that
    by (simp add: buildAnimationPlan_def Let_def fst_fold_planLayer positionLastFrames_def)
  have same: "positionLastFrames cdata2 = positionLastFrames cdata"
    if "map (\<lambda>e. positionLastFrame (snd e)) (layers cdata2) =
        map (\<lambda>e. positionLastFrame (snd e)) (layers cdata)"
    using that unfolding positionLastFrames_def
    by (metis map_filter_map)
  show ?thesis
    using eq[of data cdata] eq[of "data(compId \<mapsto> cdata2)" cdata2] assms(2) same by simp
qed

theorem buildAnimationPlan_physicsStartFrame_witness:
  "(1::nat) \<noteq> 0 \<and> projectA 1 = Some compA
   \<and> physicsStartFrame (buildAnimationPlan (Some 1) (Some projectA)) = 2
   \<and> map (positionLastFrame \<circ> snd) (layers compB) = map (positionLastFrame \<circ> snd) (layers compA)
   \<and> physicsStartFrame (buildAnimationPlan (Some 1) (Some projectB)) = 2
   \<and> projectEarlyKey 1 = Some compEarlyKey
   \<and> positionLastFrames compEarlyKey = [-60]
   \<and> physicsStartFrame (buildAnimationPlan (Some 1) (Some projectEarlyKey)) = -1"
proof -
  have h1: "(1::nat) \<noteq> 0" by simp
  have h2: "projectA (1::nat) = Some compA" by (simp add: projectA_def)
  have h3: "projectEarlyKey (1::nat) = Some compEarlyKey" by (simp add: projectEarlyKey_def)
  have same: "map (\<lambda>e. positionLastFrame (snd e)) (layers compB) =
       map (\<lambda>e. positionLastFrame (snd e)) (layers compA)"
    by (simp add: compA_def compB_def keyedLayer_def keyedSeries_def noProperties_def
          positionLastFrame_def)
  have early: "positionLastFrames compEarlyKey = [-60]"
    by (simp add: compEarlyKey_def keyedLayer_def keyedSeries_def
        noProperties_def positionLastFrames_def positionLastFrame_def List.map_filter_simps)
  have framesA: "positionLastFrames compA = [2, 1]"
    by (simp add: compA_def keyedLayer_def keyedSeries_def
        noProperties_def positionLastFrames_def positionLastFrame_def List.map_filter_simps)
  have same': "map (positionLastFrame \<circ> snd) (layers compB) =
       map (positionLastFrame \<circ> snd) (layers compA)"
    using same by (simp add: comp_def)
  show ?thesis
    using buildAnimationPlan_physicsStartFrame [of 1 projectA compA compB]
      buildAnimationPlan_physicsStartFrame [of 1 projectEarlyKey compEarlyKey compEarlyKey]
      h1 h2 h3 same same' early framesA
    by (simp add: projectB_def)
qed

subsection \<open>Visibility gating\<close>

text \<open>
  Claim C6, as stated: with \<open>F_out\<close> the rounded product of the out second and the framerate,
  the body is disabled at every frame from \<open>F_out\<close> on. A body with in second 2 and out second
  0 at 30 frames per second has \<open>F_in = 60\<close>, after the work-area start frame 0, and the
  rounded product for its out second is 0; frame 100 is not before 0, and the body is
  enabled there: an out second of 0 stands for no out-point.
\<close>

theorem checkInOutStatus_gating_counterexample:
  "workareaStartFrame 0 30 < js_round (2 * 30) \<and> js_round (0 * 30) \<le> (100::int)
   \<and> \<not> isDisabled (checkInOutStatus (Some [2, 0]) 100 30 0)"
  by (simp add: checkInOutStatus_def Let_def inPointFrame_def outPointFrame_def
        workareaStartFrame_def inOut_entry_def truthy_def js_round_def)

text \<open>
  Claim C6, amended. Let \<open>F_in\<close> be the in-point frame that \<open>checkInOutStatus\<close> computes for
  a body, the rounded product of its in second with the composition framerate, and let it
  be after the work-area start frame. The body has an out-frame \<open>F_out\<close>, the rounded product
  of its out second with the framerate, only if it has an out second that is not zero.
  With an out-frame, the body is reported disabled at every frame from the work-area start
  frame up to but excluding \<open>F_in\<close> and at every frame from \<open>F_out\<close> on, and enabled at every
  frame from \<open>F_in\<close> up to but excluding \<open>F_out\<close>. Without one (the out second is zero or
  missing), it is disabled from the work-area start frame up to but excluding \<open>F_in\<close> and
  enabled at every frame from \<open>F_in\<close> on.
\<close>

theorem checkInOutStatus_gating:
  assumes "workareaStartFrame workareaStart compFramerate < inPointFrame io compFramerate"
  shows "(workareaStartFrame workareaStart compFramerate \<le> f \<and> f < inPointFrame io compFramerate
            \<longrightarrow> isDisabled (checkInOutStatus io f compFramerate workareaStart))
       \<and> (frame_ge f (outPointFrame io compFramerate)
            \<longrightarrow> isDisabled (checkInOutStatus io f compFramerate workareaStart))
       \<and> (inPointFrame io compFramerate \<le> f \<and> frame_lt f (outPointFrame io compFramerate)
            \<longrightarrow> \<not> isDisabled (checkInOutStatus io f compFramerate workareaStart))
       \<and> (io = Some (tin # tout # rest)
            \<longrightarrow> inPointFrame io compFramerate = js_round (tin * compFramerate)
              \<and> outPointFrame io compFramerate =
                  (if tout = 0 then Infinity else Frame (js_round (tout * compFramerate))))
       \<and> (io = Some [tin]
            \<longrightarrow> inPointFrame io compFramerate = js_round (tin * compFramerate)
              \<and> outPointFrame io compFramerate = Infinity)
       \<and> (outPointFrame io compFramerate = Infinity \<and> inPointFrame io compFramerate \<le> f
            \<longrightarrow> \<not> isDisabled (checkInOutStatus io f compFramerate workareaStart))"
  using assms
  by (cases "outPointFrame io compFramerate")
     (auto simp: checkInOutStatus_def Let_def inPointFrame_def outPointFrame_def
        inOut_entry_def truthy_def js_round_def)

theorem checkInOutStatus_gating_witness:
  "workareaStartFrame 0 30 < inPointFrame (Some [1, 2]) 30
   \<and> inPointFrame (Some [1, 2]) 30 = 30 \<and> outPointFrame (Some [1, 2]) 30 = Frame 60
   \<and> isDisabled (checkInOutStatus (Some [1, 2]) 10 30 0)
   \<and> isDisabled (checkInOutStatus (Some [1, 2]) 60 30 0)
   \<and> \<not> isDisabled (checkInOutStatus (Some [1, 2]) 30 30 0)
   \<and> \<not> isDisabled (checkInOutStatus (Some [1, 2]) 59 30 0)
   \<and> workareaStartFrame 0 30 < inPointFrame (Some [2, 0]) 30
   \<and> inPointFrame (Some [2, 0]) 30 = 60 \<and> outPointFrame (Some [2, 0]) 30 = Infinity
   \<and> isDisabled (checkInOutStatus (Some [2, 0]) 59 30 0)
   \<and> \<not> isDisabled (checkInOutStatus (Some [2, 0]) 60 30 0)
   \<and> \<not> isDisabled (checkInOutStatus (Some [2, 0]) 100 30 0)"
proof -
  have w: "workareaStartFrame 0 30 = 0"
    by (simp add: workareaStartFrame_def js_round_def)
  have i: "inPointFrame (Some [1, 2]) 30 = 30" "inPointFrame (Some [2, 0]) 30 = 60"
    by (simp_all add: inPointFrame_def inOut_entry_def truthy_def js_round_def)
  have o: "outPointFrame (Some [1, 2]) 30 = Frame 60" "outPointFrame (Some [2, 0]) 30 = Infinity"
    by (simp_all add: outPointFrame_def inOut_entry_def truthy_def js_round_def)
  have h: "workareaStartFrame 0 30 < inPointFrame (Some [1, 2]) 30"
    using w i by simp
  have h2: "workareaStartFrame 0 30 < inPointFrame (Some [2, 0]) 30"
    using w i by simp
  show ?thesis
    using h h2 w i o
      checkInOutStatus_gating [OF h, of 10 1 2 "[]"]
      checkInOutStatus_gating [OF h, of 60 1 2 "[]"]
      checkInOutStatus_gating [OF h, of 30 1 2 "[]"]
      checkInOutStatus_gating [OF h, of 59 1 2 "[]"]
      checkInOutStatus_gating [OF h2, of 59 2 0 "[]"]
      checkInOutStatus_gating [OF h2, of 60 2 0 "[]"]
      checkInOutStatus_gating [OF h2, of 100 2 0 "[]"]
    by simp
qed

lemma forEachBody_nth:
  "forEachBody f bs = Inr bs' \<Longrightarrow> i < length bs \<Longrightarrow> f (bs ! i) = Inr (bs' ! i)"
proof (induction bs arbitrary: bs' i)
  case Nil
  then show ?case by simp
next
  case (Cons b bs)
  obtain b1 where b1: "f b = Inr b1" using Cons.prems(1) by (cases "f b") auto
  obtain bs1 where bs1: "forEachBody f bs = Inr bs1"
    using Cons.prems(1) b1 by (cases "forEachBody f bs") auto
  have e: "bs' = b1 # bs1" using Cons.prems(1) b1 bs1 by simp
  show ?case
  proof (cases i)
    case 0
    then show ?thesis using b1 e by simp
  next
    case (Suc j)
    then show ?thesis using Cons.IH[OF bs1, of j] Cons.prems(2) e by simp
  qed
qed

lemma updateGravity_bodies: "world_bodies (fst (updateGravity e cdata k)) = world_bodies e"
  by (simp add: updateGravity_def Let_def split: option.splits)

lemma runTicks_split:
  "runTicks tick (xs @ physicsFrame # ys) st = Inr st''
   \<Longrightarrow> \<exists>s s'. runTicks tick xs st = Inr s \<and> tick physicsFrame s = Inr s'
          \<and> runTicks tick ys s' = Inr st''"
proof (induction xs arbitrary: st)
  case Nil
  then show ?case by (cases "tick physicsFrame st") auto
next
  case (Cons x xs)
  then show ?case by (cases "tick x st") auto
qed

text \<open>
  Claim C5. Take a tick of the loop (\<open>physicsTick\<close>, which \<open>runTicks\<close> applies at every physics
  frame of the run) and a body of the world that \<open>checkInOutStatus\<close> reports disabled at the
  composition frame of that tick. The per-body pass returns that body with the disabled
  state applied and nothing else: the body is asleep, the opacity of its render records is
  \<open>0.25\<close>, collision category and mask are zero, and every other field (position, velocity,
  angle, angular velocity, scale, material properties, static flag, plugin) is as before,
  whatever the animation plan holds for the layer. The engine that the tick hands to the
  integration step is the engine after the gravity update with the bodies that the pass
  returned, so the body reaches the integration in exactly that state; and this holds at
  any tick inside a run. The body-type switch is also a no-op when it is told that the body
  is disabled.
\<close>

theorem disabled_body_only_disabled_state:
  assumes "i < length bs"
    and "isDisabled (checkInOutStatus (bodyInOut (bs ! i)) nextCompFrame compFramerate workareaStart)"
  shows "processBody plan nextCompFrame currentCompIdx expectedCompFrames compFramerate
           workareaStart frictionAirDefault (bs ! i) = Inr (applyDisabledState (bs ! i))
       \<and> (\<forall>bs'. forEachBody
                   (processBody plan nextCompFrame currentCompIdx expectedCompFrames compFramerate
                      workareaStart frictionAirDefault) bs = Inr bs'
              \<longrightarrow> bs' ! i = applyDisabledState (bs ! i))
       \<and> (\<forall>st st'. world_bodies (ls_engine st) = bs \<and> int (ls_nextCompFrame st) = nextCompFrame
              \<and> fst workarea = workareaStart
              \<and> physicsTick engineUpdate (Some plan) cdata workarea compFramerate
                   expectedCompFrames physicsFrame st = Inr st'
              \<longrightarrow> (\<exists>bs'. forEachBody
                     (processBody plan nextCompFrame (ls_nextCompFrame st - 1) expectedCompFrames
                        compFramerate workareaStart
                        (snd (updateGravity (ls_engine st) cdata
                           (nat (max 0 \<lfloor>(timestamp (ls_engine st) / 1000) * compFramerate\<rfloor>)))))
                     bs = Inr bs'
                   \<and> bs' ! i = applyDisabledState (bs ! i)
                   \<and> ls_engine st' =
                       engineUpdate
                         ((fst (updateGravity (ls_engine st) cdata
                            (nat (max 0 \<lfloor>(timestamp (ls_engine st) / 1000) * compFramerate\<rfloor>))))
                          \<lparr>world_bodies := bs'\<rparr>)
                         SIMULATION_DELTA))
       \<and> (\<forall>before after st0 st st''. 
              runTicks (physicsTick engineUpdate (Some plan) cdata workarea compFramerate
                          expectedCompFrames) (before @ physicsFrame # after) st0 = Inr st''
              \<and> runTicks (physicsTick engineUpdate (Some plan) cdata workarea compFramerate
                          expectedCompFrames) before st0 = Inr st
              \<and> world_bodies (ls_engine st) = bs \<and> int (ls_nextCompFrame st) = nextCompFrame
              \<and> fst workarea = workareaStart
              \<longrightarrow> (\<exists>st' bs'. physicsTick engineUpdate (Some plan) cdata workarea compFramerate
                               expectedCompFrames physicsFrame st = Inr st'
                   \<and> runTicks (physicsTick engineUpdate (Some plan) cdata workarea compFramerate
                               expectedCompFrames) after st' = Inr st''
                   \<and> bs' ! i = applyDisabledState (bs ! i)
                   \<and> ls_engine st' =
                       engineUpdate
                         ((fst (updateGravity (ls_engine st) cdata
                            (nat (max 0 \<lfloor>(timestamp (ls_engine st) / 1000) * compFramerate\<rfloor>))))
                          \<lparr>world_bodies := bs'\<rparr>)
                         SIMULATION_DELTA))
       \<and> applyDisabledState (bs ! i) =
           (bs ! i)\<lparr>isSleeping := True,
             render := map_option (\<lambda>r. r\<lparr>opacity := 0.25\<rparr>) (render (bs ! i)),
             partRenders := (if render (bs ! i) = None then partRenders (bs ! i)
                             else map (map_option (\<lambda>p. p\<lparr>opacity := 0.25\<rparr>)) (partRenders (bs ! i))),
             category := 0, mask := 0\<rparr>
       \<and> handleBodyTypeSwitch (bs ! i) (bodyLayerId (bs ! i)) plan currentCompIdx True = Inr (bs ! i)"
proof -
  have p: "\<And>idx fad. processBody plan nextCompFrame idx expectedCompFrames compFramerate
           workareaStart fad (bs ! i) = Inr (applyDisabledState (bs ! i))"
    using assms(2) by (simp add: processBody_def Let_def)
  have each: "\<And>idx fad bs'. forEachBody
                   (processBody plan nextCompFrame idx expectedCompFrames compFramerate
                      workareaStart fad) bs = Inr bs'
              \<Longrightarrow> bs' ! i = applyDisabledState (bs ! i)"
    using forEachBody_nth[OF _ assms(1)] p by fastforce
  have tick: "\<exists>bs'. forEachBody
                     (processBody plan nextCompFrame (ls_nextCompFrame st - 1) expectedCompFrames
                        compFramerate workareaStart
                        (snd (updateGravity (ls_engine st) cdata
                           (nat (max 0 \<lfloor>(timestamp (ls_engine st) / 1000) * compFramerate\<rfloor>)))))
                     bs = Inr bs'
                   \<and> bs' ! i = applyDisabledState (bs ! i)
                   \<and> ls_engine st' =
                       engineUpdate
                         ((fst (updateGravity (ls_engine st) cdata
                            (nat (max 0 \<lfloor>(timestamp (ls_engine st) / 1000) * compFramerate\<rfloor>))))
                          \<lparr>world_bodies := bs'\<rparr>)
                         SIMULATION_DELTA"
    if b: "world_bodies (ls_engine st) = bs" and n: "int (ls_nextCompFrame st) = nextCompFrame"
      and w: "fst workarea = workareaStart"
      and t: "physicsTick engineUpdate (Some plan) cdata workarea compFramerate
                   expectedCompFrames physicsFrame st = Inr st'"
    for st st'
  proof -
    let ?gr = "updateGravity (ls_engine st) cdata
                 (nat (max 0 \<lfloor>(timestamp (ls_engine st) / 1000) * compFramerate\<rfloor>))"
    let ?f = "processBody plan nextCompFrame (ls_nextCompFrame st - 1) expectedCompFrames
                compFramerate workareaStart (snd ?gr)"
    have wb: "world_bodies (fst ?gr) = bs" using b by (simp add: updateGravity_bodies)
    obtain bs' where f: "forEachBody ?f bs = Inr bs'"
      using t wb n w
      by (cases "forEachBody ?f bs") (auto simp: physicsTick_def Let_def andThen_def)
    have "ls_engine st' = engineUpdate ((fst ?gr)\<lparr>world_bodies := bs'\<rparr>) SIMULATION_DELTA"
      using t wb n w f
      by (auto simp: physicsTick_def Let_def andThen_def split: if_splits)
    then show ?thesis using f each[OF f] by blast
  qed
  have a: "applyDisabledState (bs ! i) =
           (bs ! i)\<lparr>isSleeping := True,
             render := map_option (\<lambda>r. r\<lparr>opacity := 0.25\<rparr>) (render (bs ! i)),
             partRenders := (if render (bs ! i) = None then partRenders (bs ! i)
                             else map (map_option (\<lambda>p. p\<lparr>opacity := 0.25\<rparr>)) (partRenders (bs ! i))),
             category := 0, mask := 0\<rparr>"
    by (auto simp: applyDisabledState_def Sleeping_set_def split: option.splits)
  have h:
    "handleBodyTypeSwitch (bs ! i) (bodyLayerId (bs ! i)) plan currentCompIdx True = Inr (bs ! i)"
    by (auto simp: handleBodyTypeSwitch_def Let_def split: option.splits)
  have run: "\<exists>st' bs'. physicsTick engineUpdate (Some plan) cdata workarea compFramerate
                               expectedCompFrames physicsFrame st = Inr st'
                   \<and> runTicks (physicsTick engineUpdate (Some plan) cdata workarea compFramerate
                               expectedCompFrames) after st' = Inr st''
                   \<and> bs' ! i = applyDisabledState (bs ! i)
                   \<and> ls_engine st' =
                       engineUpdate
                         ((fst (updateGravity (ls_engine st) cdata
                            (nat (max 0 \<lfloor>(timestamp (ls_engine st) / 1000) * compFramerate\<rfloor>))))
                          \<lparr>world_bodies := bs'\<rparr>)
                         SIMULATION_DELTA"
    if r: "runTicks (physicsTick engineUpdate (Some plan) cdata workarea compFramerate
                          expectedCompFrames) (before @ physicsFrame # after) st0 = Inr st''"
      and r0: "runTicks (physicsTick engineUpdate (Some plan) cdata workarea compFramerate
                          expectedCompFrames) before st0 = Inr st"
      and b: "world_bodies (ls_engine st) = bs" and n: "int (ls_nextCompFrame st) = nextCompFrame"
      and w: "fst workarea = workareaStart"
    for before after st0 st st''
  proof -
    obtain s s' where s: "runTicks (physicsTick engineUpdate (Some plan) cdata workarea compFramerate
                          expectedCompFrames) before st0 = Inr s"
      "physicsTick engineUpdate (Some plan) cdata workarea compFramerate
                          expectedCompFrames physicsFrame s = Inr s'"
      "runTicks (physicsTick engineUpdate (Some plan) cdata workarea compFramerate
                          expectedCompFrames) after s' = Inr st''"
      using runTicks_split[OF r] by blast
    have e: "s = st" using s(1) r0 by simp
    show ?thesis using tick[OF b n w s(2)[unfolded e]] s(2,3) e by blast
  qed
  show ?thesis
  proof (intro conjI allI impI)
    show "processBody plan nextCompFrame currentCompIdx expectedCompFrames compFramerate
           workareaStart frictionAirDefault (bs ! i) = Inr (applyDisabledState (bs ! i))"
      by (rule p)
  qed (use each tick run a h in blast)+
qed

theorem disabled_body_only_disabled_state_witness:
  "0 < length (world_bodies layerWorld)
   \<and> isDisabled (checkInOutStatus (bodyInOut (world_bodies layerWorld ! 0)) 2 30 0)
   \<and> map_sum id position (forcePosition layerBody (Some 7) examplePlan 1 60 SIMULATION_FPS 30)
       = Inr (10, 5)
   \<and> processBody examplePlan 2 1 60 30 0 0 layerBody = Inr (applyDisabledState layerBody)
   \<and> physicsTick clockOnly (Some examplePlan) None (0, 2) 30 60 0 layerLoopState
       = Inr (layerLoopState\<lparr>ls_engine :=
                clockOnly (layerWorld\<lparr>world_bodies := [applyDisabledState layerBody]\<rparr>)
                  SIMULATION_DELTA\<rparr>)
   \<and> position (applyDisabledState layerBody) = (0, 0)
   \<and> velocity (applyDisabledState layerBody) = (3, 4)
   \<and> isSleeping (applyDisabledState layerBody)
   \<and> map_option opacity (render (applyDisabledState layerBody)) = Some 0.25
   \<and> category (applyDisabledState layerBody) = 0 \<and> mask (applyDisabledState layerBody) = 0"
proof -
  have wb: "world_bodies layerWorld = [layerBody]" by (simp add: layerWorld_def)
  have l: "0 < length (world_bodies layerWorld)" by (simp add: wb)
  have h: "isDisabled (checkInOutStatus (bodyInOut (world_bodies layerWorld ! 0)) 2 30 0)"
    by (simp add: wb checkInOutStatus_def Let_def bodyInOut_def layerBody_def exampleBody_def
          emptyPlugin_def inPointFrame_def outPointFrame_def workareaStartFrame_def
          inOut_entry_def truthy_def js_round_def)
  note inst = disabled_body_only_disabled_state [OF l h, where plan = examplePlan and currentCompIdx = 1
      and expectedCompFrames = 60 and frictionAirDefault = 0]
  have r: "render layerBody \<noteq> None" "velocity layerBody = (3, 4)" "position layerBody = (0, 0)"
    "map_option opacity (map_option (\<lambda>r. r\<lparr>opacity := 0.25\<rparr>) (render layerBody)) = Some 0.25"
    by (simp_all add: layerBody_def exampleBody_def)
  have a: "applyDisabledState layerBody =
      layerBody\<lparr>isSleeping := True,
        render := map_option (\<lambda>r. r\<lparr>opacity := 0.25\<rparr>) (render layerBody),
        partRenders := (if render layerBody = None then partRenders layerBody
           else map (map_option (\<lambda>p. p\<lparr>opacity := 0.25\<rparr>)) (partRenders layerBody)),
        category := 0, mask := 0\<rparr>"
    using inst wb by simp
  have p: "processBody examplePlan 2 1 60 30 0 0 layerBody = Inr (applyDisabledState layerBody)"
    using inst wb by simp
  have f: "map_sum id position (forcePosition layerBody (Some 7) examplePlan 1 60 SIMULATION_FPS 30)
       = Inr (10, 5)"
    by (simp add: forcePosition_def planOf_def examplePlan_def exampleLayerPlan_def
          examplePosition_def lastOr_def Let_def Body_setPosition_def Body_setVelocity_def
          Sleeping_set_def)
  have g: "updateGravity layerWorld None 0 = (layerWorld, 0)" by (simp add: updateGravity_def)
  have t0: "timestamp layerWorld = 0" by (simp add: layerWorld_def emptyEngine_def)
  have t: "physicsTick clockOnly (Some examplePlan) None (0, 2) 30 60 0 layerLoopState
       = Inr (layerLoopState\<lparr>ls_engine :=
                clockOnly (layerWorld\<lparr>world_bodies := [applyDisabledState layerBody]\<rparr>)
                  SIMULATION_DELTA\<rparr>)"
  proof -
    have p': "processBody examplePlan 2 (Suc 0) 60 30 0 0 layerBody
        = Inr (applyDisabledState layerBody)"
      using p by simp
    have j: "js_round (real 2 * (SIMULATION_FPS / 30)) \<noteq> 0"
      by (simp add: js_round_def SIMULATION_FPS_def)
    show ?thesis
      using j
      by (simp add: physicsTick_def Let_def layerLoopState_def g t0 wb p' andThen_def)
  qed
  show ?thesis using l h f p t a r by simp
qed

subsection \<open>Keyframe forcing\<close>

text \<open>
  Claim C2. Take a position series with last-keyframe index \<open>K\<close> inside the expected
  composition-frame range, not flagged hold, and sampled at \<open>K\<close>. Then \<open>forcePosition\<close> at
  composition index \<open>K\<close> succeeds and leaves the body with the velocity
  \<open>(v[K] - v[K-1]) * (simulationFps / compFramerate)\<close> in each component, the pre-value
  taking the place of \<open>v[K-1]\<close> when \<open>K = 0\<close>; and the call at index \<open>K + 1\<close> returns
  the body as it was, so it sets neither position nor velocity.
\<close>

theorem forcePosition_velocity_handoff:
  assumes series: "planOf plan lid = Some lp" "lp_position lp = Some ps"
    and last: "last_idx ps = Some (int K)"
    and inside: "int K < expectedCompFrames"
    and nohold: "hold ps \<noteq> Some True"
    and sampled: "K < length (vals ps)"
    and rate: "compFramerate > 0"
  shows "map_sum id velocity
           (forcePosition b lid plan K expectedCompFrames simulationFps compFramerate) =
           Inr ((fst (vals ps ! K) - fst (if K = 0 then pre ps else vals ps ! (K - 1)))
                  * (simulationFps / compFramerate),
                (snd (vals ps ! K) - snd (if K = 0 then pre ps else vals ps ! (K - 1)))
                  * (simulationFps / compFramerate))
       \<and> forcePosition b lid plan (K + 1) expectedCompFrames simulationFps compFramerate = Inr b"
proof -
  have h: "hold ps = None \<or> hold ps = Some False" using nohold by (cases "hold ps") auto
  have nth: "js_nth (vals ps) (int K) = Some (vals ps ! K)"
    using sampled by (simp add: js_nth_def)
  have nthp: "K > 0 \<Longrightarrow> js_nth (vals ps) (int K - 1) = Some (vals ps ! (K - 1))"
    using sampled by (auto simp: js_nth_def nat_diff_distrib)
  show ?thesis
    using series last inside h sampled nth nthp
    by (auto simp: forcePosition_def lastOr_def Let_def Body_setVelocity_def)
qed

theorem forcePosition_velocity_handoff_witness:
  "planOf examplePlan (Some 7) = Some exampleLayerPlan
   \<and> lp_position exampleLayerPlan = Some examplePosition
   \<and> last_idx examplePosition = Some (int 2) \<and> int 2 < 60
   \<and> hold examplePosition \<noteq> Some True \<and> 2 < length (vals examplePosition) \<and> (30::real) > 0
   \<and> map_sum id velocity (forcePosition layerBody (Some 7) examplePlan 2 60 50 30) =
        Inr (100 / 3, 25)
   \<and> forcePosition layerBody (Some 7) examplePlan 3 60 50 30 = Inr layerBody"
proof -
  have h1: "planOf examplePlan (Some 7) = Some exampleLayerPlan"
    by (simp add: planOf_def examplePlan_def)
  have h2: "lp_position exampleLayerPlan = Some examplePosition"
    by (simp add: exampleLayerPlan_def)
  have h3: "last_idx examplePosition = Some (int 2)" by (simp add: examplePosition_def)
  have h4: "int 2 < 60" by simp
  have h5: "hold examplePosition \<noteq> Some True" by (simp add: examplePosition_def)
  have h6: "2 < length (vals examplePosition)" by (simp add: examplePosition_def)
  have h7: "(30::real) > 0" by simp
  have v: "vals examplePosition ! 2 = (30, 20)" "vals examplePosition ! (2 - 1) = (10, 5)"
    by (simp_all add: examplePosition_def)
  show ?thesis
    using forcePosition_velocity_handoff [OF h1 h2 h3 h4 h5 h6 h7, of layerBody 50]
      h1 h2 h3 h5 h6 v
    by simp
qed

subsection \<open>Frame capture\<close>

lemma physicsTick_frames:
  assumes "physicsTick upd plan cdata w fr E pf st = Inr st'"
  shows "(pf = js_round (real (ls_nextCompFrame st) * (SIMULATION_FPS / fr))
            \<and> int (ls_nextCompFrame st) \<le> E
           \<longrightarrow> ls_nextCompFrame st' = ls_nextCompFrame st + 1
              \<and> map time (ls_frames st') =
                  map time (ls_frames st) @ [fst w + real (ls_nextCompFrame st) / fr])
       \<and> (\<not> (pf = js_round (real (ls_nextCompFrame st) * (SIMULATION_FPS / fr))
               \<and> int (ls_nextCompFrame st) \<le> E)
           \<longrightarrow> ls_nextCompFrame st' = ls_nextCompFrame st \<and> ls_frames st' = ls_frames st)"
  using assms
  by (auto simp: physicsTick_def Let_def captureFrame_def dest!: andThen_Inr split: if_splits)

lemma runTicks_frames:
  "runTicks (physicsTick upd plan cdata w fr E) pfs st = Inr st' \<Longrightarrow>
   map time (ls_frames st') = map time (ls_frames st) @
     map (\<lambda>n. fst w + real n / fr)
       (capturedFrames (SIMULATION_FPS / fr) E pfs (ls_nextCompFrame st))"
proof (induction pfs arbitrary: st)
  case Nil
  then show ?case by simp
next
  case (Cons pf pfs)
  from Cons.prems obtain st1 where t: "physicsTick upd plan cdata w fr E pf st = Inr st1"
    and r: "runTicks (physicsTick upd plan cdata w fr E) pfs st1 = Inr st'"
    by (auto split: sum.splits)
  from physicsTick_frames[OF t] Cons.IH[OF r] show ?case
    by (auto split: if_splits)
qed

lemma calculateAllFrames_times:
  assumes "calculateAllFrames upd e0 plan cid data w fr = Inr frames"
  shows "map time frames = fst w #
     map (\<lambda>n. fst w + real n / fr)
       (capturedFrames (SIMULATION_FPS / fr) (js_round ((snd w - fst w) * fr))
          [0..\<lceil>(snd w - fst w) * SIMULATION_FPS\<rceil>] 1)"
proof -
  from assms obtain cdata st where
    r: "runTicks (physicsTick upd plan cdata w fr (js_round ((snd w - fst w) * fr)))
          [0..\<lceil>(snd w - fst w) * SIMULATION_FPS\<rceil>]
          \<lparr>ls_engine = e0\<lparr>timestamp := 0\<rparr>,
           ls_frames = [captureFrame (e0\<lparr>timestamp := 0\<rparr>) (fst w)],
           ls_nextCompFrame = 1\<rparr> = Inr st"
    and f: "frames = ls_frames st"
    by (auto simp: calculateAllFrames_def Let_def dest!: andThen_Inr)
  from runTicks_frames[OF r] f show ?thesis by (simp add: captureFrame_def)
qed

lemma runTicks_total:
  assumes "\<And>pf st. \<exists>st'. tick pf st = Inr st'"
  shows "\<exists>st'. runTicks tick pfs st = Inr st'"
proof (induction pfs arbitrary: st)
  case Nil
  then show ?case by simp
next
  case (Cons pf pfs)
  obtain st1 where "tick pf st = Inr st1" using assms by blast
  then show ?case using Cons.IH[of st1] by simp
qed

lemma calculateAllFrames_no_plan:
  "\<exists>frames. calculateAllFrames upd e0 None None data w fr = Inr frames"
proof -
  have "\<exists>st'. physicsTick upd None None w fr E pf st = Inr st'" for E pf st
    by (simp add: physicsTick_def Let_def)
  then have "\<exists>st'. runTicks (physicsTick upd None None w fr E) pfs st = Inr st'" for E pfs st
    by (rule runTicks_total)
  then obtain st' where
    "runTicks (physicsTick upd None None w fr (js_round ((snd w - fst w) * fr)))
       [0..\<lceil>(snd w - fst w) * SIMULATION_FPS\<rceil>]
       \<lparr>ls_engine = e0\<lparr>timestamp := 0\<rparr>,
        ls_frames = [captureFrame (e0\<lparr>timestamp := 0\<rparr>) (fst w)],
        ls_nextCompFrame = 1\<rparr> = Inr st'"
    by blast
  then show ?thesis
    by (simp add: calculateAllFrames_def Let_def)
qed

lemma capturedFrames_60fps: "capturedFrames (50 / 60) 60 [0..50] 1 = [1, 2, 3]"
  by code_simp

text \<open>
  Claim C1, at a composition framerate of 60 frames per second and a work area of one
  second: a run that completes publishes four snapshots, for the composition frames 0 to 3,
  and none for the frames 4 to 60. The sampling ratio \<open>50 / 60\<close> is below one, so the
  expected physics frame of composition frame 4, \<open>round (4 * 50 / 60) = 3\<close>, has already
  passed when the loop looks for it, and the equality test never holds again.
\<close>

theorem calculateAllFrames_60fps_stops_at_frame_3:
  assumes "calculateAllFrames engineUpdate engine0 plan currentCompId compData (0, 1) 60 = Inr frames"
  shows "map time frames = [0, 1 / 60, 2 / 60, 3 / 60]"
proof -
  have "js_round ((1 - 0) * 60) = 60" "\<lceil>(1 - 0) * SIMULATION_FPS\<rceil> = 50"
    by (simp_all add: js_round_def SIMULATION_FPS_def)
  then show ?thesis
    using calculateAllFrames_times[OF assms] capturedFrames_60fps
    by (simp add: SIMULATION_FPS_def)
qed

theorem calculateAllFrames_60fps_stops_at_frame_3_witness:
  "map_sum id (map time) (calculateAllFrames clockOnly emptyEngine None None None (0, 1) 60) =
     Inr [0, 1 / 60, 2 / 60, 3 / 60]"
proof -
  obtain frames where
    f: "calculateAllFrames clockOnly emptyEngine None None None (0, 1) 60 = Inr frames"
    using calculateAllFrames_no_plan by blast
  show ?thesis
    using calculateAllFrames_60fps_stops_at_frame_3 [OF f] f by simp
qed

subsection \<open>Resampling\<close>

lemma upt21: "[0..<21] = [0,1,2,3,4,5,6,7,8,9,10,11,12,13,14,15,16,17,18,19,20::nat]"
  by (simp add: upt_rec)

lemma resampleSegment_plain:
  "resampleSegment bezierLUT n mo (p0, None) (p3, None) res =
   pushSamples res (butlast (map (\<lambda>i. bezierPoint p0 p0 p3 p3 (real i / real n)) [0..<n + 1]))"
  by (simp add: resampleSegment_def controlPoint_def bezierLUT_def Let_def)

lemma sliver_segment0:
  "pushSamples []
     (butlast (map (\<lambda>i. bezierPoint (0, 0) (0, 0) (50, 0.2) (50, 0.2) (real i / real 20))
        [0..<20 + 1]))
   = [(0, 0), (29 / 80, 29 / 20000)]"
  by (simp add: upt21 bezierPoint_def Let_def collinearSkip_def)

lemma sliver_segment1:
  "pushSamples [(0, 0), (29 / 80, 29 / 20000)]
     (butlast (map (\<lambda>i. bezierPoint (50, 0.2) (50, 0.2) (100, 0) (100, 0) (real i / real 20))
        [0..<20 + 1]))
   = [(0, 0), (29 / 80, 29 / 20000), (4243 / 80, 3757 / 20000), (276 / 5, 112 / 625)]"
  by (simp add: upt21 bezierPoint_def Let_def collinearSkip_def)

lemma sliver_segment2:
  "pushSamples [(0, 0), (29 / 80, 29 / 20000), (4243 / 80, 3757 / 20000), (276 / 5, 112 / 625)]
     (butlast (map (\<lambda>i. bezierPoint (100, 0) (100, 0) (60, -0.2) (60, -0.2) (real i / real 20))
        [0..<20 + 1]))
   = [(0, 0), (29 / 80, 29 / 20000), (4243 / 80, 3757 / 20000), (276 / 5, 112 / 625),
      (9971 / 100, - (29 / 20000)), (2472 / 25, - (7 / 1250))]"
  by (simp add: upt21 bezierPoint_def Let_def collinearSkip_def)

lemma sliver_segment3:
  "pushSamples [(0, 0), (29 / 80, 29 / 20000), (4243 / 80, 3757 / 20000), (276 / 5, 112 / 625),
      (9971 / 100, - (29 / 20000)), (2472 / 25, - (7 / 1250))]
     (butlast (map (\<lambda>i. bezierPoint (60, -0.2) (60, -0.2) (50, 0) (50, 0) (real i / real 20))
        [0..<20 + 1]))
   = [(0, 0), (29 / 80, 29 / 20000), (4243 / 80, 3757 / 20000), (276 / 5, 112 / 625),
      (9971 / 100, - (29 / 20000)), (2472 / 25, - (7 / 1250)),
      (1493 / 25, - (243 / 1250)), (23757 / 400, - (3757 / 20000))]"
  by (simp add: upt21 bezierPoint_def Let_def collinearSkip_def)

lemma sliver_segment4:
  "pushSamples [(0, 0), (29 / 80, 29 / 20000), (4243 / 80, 3757 / 20000), (276 / 5, 112 / 625),
      (9971 / 100, - (29 / 20000)), (2472 / 25, - (7 / 1250)),
      (1493 / 25, - (243 / 1250)), (23757 / 400, - (3757 / 20000))]
     (butlast (map (\<lambda>i. bezierPoint (50, 0) (50, 0) (0, 0) (0, 0) (real i / real 20))
        [0..<20 + 1]))
   = sliverResampled"
  by (simp add: upt21 bezierPoint_def Let_def collinearSkip_def sliverResampled_def)

lemma sliverResampled_area: "calculateArea sliverResampled = 114670843 / 8000000"
  by (simp add: calculateArea_def sliverResampled_def upt_rec)

lemma sliverSimplified_area: "calculateArea sliverSimplified = 108953 / 3200000"
  by (simp add: calculateArea_def sliverSimplified_def upt_rec)

lemma sliver_resampleStage: "resampleStage bezierLUT sliverPath 20 = Some sliverResampled"
proof -
  have area: "\<not> calculateArea sliverResampled < MIN_AREA"
    by (simp add: sliverResampled_area MIN_AREA_def)
  show ?thesis
    using sliver_segment0 sliver_segment1 sliver_segment2 sliver_segment3 sliver_segment4
      area[unfolded sliverResampled_def]
    by (simp add: resampleStage_def sliverPath_def plainVertex_def Let_def
        resampleSegment_plain upt_rec[of 0 5] upt_rec[of 1 5] upt_rec[of 2 5] upt_rec[of 3 5]
        upt_rec[of 4 5] upt_rec[of 5 5] sliverResampled_def)
qed

lemma important_test:
  assumes "A > 0" "B > 0"
  shows "(v1x / sqrt A) * (v2x / sqrt B) + (v1y / sqrt A) * (v2y / sqrt B) < (c::real)
     \<longleftrightarrow> v1x * v2x + v1y * v2y < c * sqrt (A * B)"
proof -
  have s: "sqrt A > 0" "sqrt B > 0" using assms by simp_all
  have "(v1x / sqrt A) * (v2x / sqrt B) + (v1y / sqrt A) * (v2y / sqrt B)
      = (v1x * v2x + v1y * v2y) / (sqrt A * sqrt B)"
    using s by (simp add: field_simps)
  also have "\<dots> < c \<longleftrightarrow> v1x * v2x + v1y * v2y < c * (sqrt A * sqrt B)"
    using s by (simp add: pos_divide_less_eq)
  finally show ?thesis by (simp add: real_sqrt_mult)
qed

lemma sqrt_bound:
  fixes A B d c :: real
  assumes "A \<ge> 0" "B \<ge> 0" "d \<ge> 0" "c\<^sup>2 * (A * B) \<le> d\<^sup>2"
  shows "c * sqrt (A * B) \<le> d"
proof (cases "c \<ge> 0")
  case True
  have X: "A * B \<ge> 0" using assms by simp
  have "(c * sqrt (A * B))\<^sup>2 = c\<^sup>2 * (A * B)"
    using X by (simp add: power_mult_distrib)
  then have "(c * sqrt (A * B))\<^sup>2 \<le> d\<^sup>2" using assms(4) by simp
  then show ?thesis using assms(3) by (rule power2_le_imp_le)
next
  case False
  have "sqrt (A * B) \<ge> 0" using assms by simp
  then have "c * sqrt (A * B) \<le> 0" using False by (simp add: mult_nonpos_nonneg)
  then show ?thesis using assms(3) by simp
qed

text \<open>
  A point where the steps into and out of it have a non-negative dot product whose square is
  at least \<open>0.98\<^sup>2\<close> times the product of their squared lengths is not important.
\<close>

lemma not_important:
  assumes "0 < i" "i < length points - 1"
    and "(fst (points ! i) - fst (points ! (i - 1))) * (fst (points ! (i + 1)) - fst (points ! i))
       + (snd (points ! i) - snd (points ! (i - 1))) * (snd (points ! (i + 1)) - snd (points ! i))
         \<ge> 0"
    and "((fst (points ! i) - fst (points ! (i - 1))) * (fst (points ! (i + 1)) - fst (points ! i))
       + (snd (points ! i) - snd (points ! (i - 1))) * (snd (points ! (i + 1)) - snd (points ! i)))\<^sup>2
       \<ge> (0.98)\<^sup>2 *
          (((fst (points ! i) - fst (points ! (i - 1)))\<^sup>2
              + (snd (points ! i) - snd (points ! (i - 1)))\<^sup>2)
           * ((fst (points ! (i + 1)) - fst (points ! i))\<^sup>2
              + (snd (points ! (i + 1)) - snd (points ! i))\<^sup>2))"
  shows "\<not> isImportant points i"
proof -
  let ?v1x = "fst (points ! i) - fst (points ! (i - 1))"
  let ?v1y = "snd (points ! i) - snd (points ! (i - 1))"
  let ?v2x = "fst (points ! (i + 1)) - fst (points ! i)"
  let ?v2y = "snd (points ! (i + 1)) - snd (points ! i)"
  let ?A = "?v1x * ?v1x + ?v1y * ?v1y"
  let ?B = "?v2x * ?v2x + ?v2y * ?v2y"
  let ?d = "?v1x * ?v2x + ?v1y * ?v2y"
  have AB: "?A \<ge> 0" "?B \<ge> 0" by simp_all
  have nz: "i \<noteq> 0" "i \<noteq> length points - 1" using assms by simp_all
  have ge: "0.98 * sqrt (?A * ?B) \<le> ?d"
    using sqrt_bound[of ?A ?B ?d "0.98"] AB assms(3) assms(4)
    by (simp add: power2_eq_square)
  show ?thesis
  proof (cases "?A > 0 \<and> ?B > 0")
    case True
    then show ?thesis
      using ge nz important_test[of ?A ?B ?v1x ?v2x ?v1y ?v2y "0.98"]
      by (simp add: isImportant_def Let_def)
  next
    case False
    then have "sqrt ?A \<le> 0 \<or> sqrt ?B \<le> 0" by auto
    then show ?thesis using nz by (auto simp: isImportant_def Let_def)
  qed
qed

lemma sliver_not_important:
  "\<not> isImportant sliverResampled 1" "\<not> isImportant sliverResampled 2"
  "\<not> isImportant sliverResampled 3" "\<not> isImportant sliverResampled 5"
  "\<not> isImportant sliverResampled 6" "\<not> isImportant sliverResampled 7"
  "\<not> isImportant sliverResampled 8"
  by (rule not_important; simp add: sliverResampled_def power2_eq_square)+

lemma sliver_farthest_0_9:
  "snd (farthest sliverResampled 0 9 [0 + 1..<9] (16, None)) = Some 4"
proof -
  have u: "[0 + 1..<9] = [1,2,3,4,5,6,7,8::nat]" by (simp add: upt_rec)
  show ?thesis unfolding u by (simp add: getSqSegDist_def Let_def sliverResampled_def)
qed

lemma sliver_farthest_0_4:
  "snd (farthest sliverResampled 0 4 [0 + 1..<4] (16, None)) = None"
proof -
  have u: "[0 + 1..<4] = [1,2,3::nat]" by (simp add: upt_rec)
  show ?thesis unfolding u by (simp add: getSqSegDist_def Let_def sliverResampled_def)
qed

lemma sliver_farthest_4_9:
  "snd (farthest sliverResampled 4 9 [4 + 1..<9] (16, None)) = None"
proof -
  have u: "[4 + 1..<9] = [5,6,7,8::nat]" by (simp add: upt_rec)
  show ?thesis unfolding u by (simp add: getSqSegDist_def Let_def sliverResampled_def)
qed

lemma sliver_simplify: "simplifyDouglasPeucker sliverResampled 4 True = sliverSimplified"
proof -
  have l: "length sliverResampled = 10" "sliverResampled ! 0 = (0, 0)"
    "sliverResampled ! 4 = (9971 / 100, - (29 / 20000))" "sliverResampled ! 9 = (3757 / 80, 0)"
    by (simp_all add: sliverResampled_def)
  have s2: "simplifyDPStep sliverResampled 0 4 16 = []"
    by (subst simplifyDPStep.simps, simp only: sliver_farthest_0_4) simp
  have s3: "simplifyDPStep sliverResampled 4 9 16 = []"
    by (subst simplifyDPStep.simps, simp only: sliver_farthest_4_9) simp
  have s1: "simplifyDPStep sliverResampled 0 9 16 = [sliverResampled ! 4]"
    by (subst simplifyDPStep.simps, simp only: sliver_farthest_0_9) (simp add: s2 s3)
  show ?thesis
    by (simp add: simplifyDouglasPeucker_def l s1 sliverSimplified_def)
qed

lemma sliver_simplifyStage:
  "simplifyStage simplifyDouglasPeucker sliverResampled = sliverSimplified"
proof -
  have u: "[0..<10] = [0,1,2,3,4,5,6,7,8,9::nat]" by (simp add: upt_rec)
  have l: "length sliverResampled = 10" by (simp add: sliverResampled_def)
  have e: "isImportant sliverResampled 0" "isImportant sliverResampled 9"
    by (simp_all add: isImportant_def l)
  have imp: "importantPoints sliverResampled =
      (if isImportant sliverResampled 4
       then [sliverResampled ! 0, sliverResampled ! 4, sliverResampled ! 9]
       else [sliverResampled ! 0, sliverResampled ! 9])"
    using sliver_not_important by (simp add: importantPoints_def l u e)
  have n: "sliverResampled ! 0 \<in> set sliverSimplified"
    "sliverResampled ! 4 \<in> set sliverSimplified" "sliverResampled ! 9 \<in> set sliverSimplified"
    by (simp_all add: sliverResampled_def sliverSimplified_def)
  have ls: "length sliverSimplified = 3" by (simp add: sliverSimplified_def)
  show ?thesis
    by (simp add: simplifyStage_def Let_def sliver_simplify imp n ls l MIN_POINTS_def)
qed

lemma set_insertBy: "set (insertBy cmp x xs) = insert x (set xs)"
  by (induction xs) auto

lemma set_sortBy: "set (sortBy cmp xs) = set xs"
  by (induction xs) (auto simp: sortBy_def set_insertBy)

text \<open>
  Claim C7, as stated: the returned list is empty or has at least 3 points and an area of at
  least \<open>0.1\<close>. For the thin path \<open>sliverPath\<close>, resampled with 20 samples per segment as the
  body synthesizer does for path shapes, the sampled points enclose an area of about 14.3 and
  pass the validation; the simplification keeps three of them, which are returned and
  enclose an area of about 0.034.
\<close>

theorem resampleBezierPath_area_counterexample:
  "\<not> (resampleBezierPath bezierLUT simplifyDouglasPeucker sliverPath 20 = []
      \<or> (3 \<le> length (resampleBezierPath bezierLUT simplifyDouglasPeucker sliverPath 20)
         \<and> MIN_AREA \<le> calculateArea
              (resampleBezierPath bezierLUT simplifyDouglasPeucker sliverPath 20)))"
  by (simp add: resampleBezierPath_def sliver_resampleStage sliver_simplifyStage
        sliverSimplified_area MIN_AREA_def)
     (simp add: sliverSimplified_def)

text \<open>
  Claim C7, amended. For every vertex list, every curve library and every simplification
  library, \<open>resampleBezierPath\<close> returns either the empty list or a list of at least 3 points
  (real, hence finite, coordinates). In the second case the sampled points, before the
  simplification, are at least 3 and enclose an area of at least \<open>0.1\<close>; the returned list
  is these points, or what the simplification made of them, or the latter together with the
  re-inserted important points. The area of the simplified list is not checked again.
\<close>

theorem resampleBezierPath_postcondition:
  "resampleBezierPath getLUT simplify vertices samplesPerSegment = []
   \<or> (\<exists>resampled.
        resampleStage getLUT vertices samplesPerSegment = Some resampled
        \<and> 3 \<le> length resampled \<and> MIN_AREA \<le> calculateArea resampled
        \<and> 3 \<le> length (resampleBezierPath getLUT simplify vertices samplesPerSegment)
        \<and> (resampleBezierPath getLUT simplify vertices samplesPerSegment = resampled
           \<or> resampleBezierPath getLUT simplify vertices samplesPerSegment
               = simplify resampled 4 True
           \<or> set (resampleBezierPath getLUT simplify vertices samplesPerSegment)
               = set (simplify resampled 4 True) \<union> set (importantPoints resampled)))"
proof (cases "resampleStage getLUT vertices samplesPerSegment")
  case None
  then show ?thesis by (simp add: resampleBezierPath_def)
next
  case (Some resampled)
  then have v: "3 \<le> length resampled" "MIN_AREA \<le> calculateArea resampled"
    by (auto simp: resampleStage_def Let_def split: if_splits option.splits)
  have "simplifyStage simplify resampled = resampled
      \<or> (3 \<le> length (simplifyStage simplify resampled)
         \<and> (simplifyStage simplify resampled = simplify resampled 4 True
            \<or> set (simplifyStage simplify resampled)
                = set (simplify resampled 4 True) \<union> set (importantPoints resampled)))"
    by (auto simp: simplifyStage_def Let_def MIN_POINTS_def set_sortBy)
  then show ?thesis using Some v by (auto simp: resampleBezierPath_def)
qed

theorem resampleBezierPath_postcondition_witness:
  "resampleStage bezierLUT sliverPath 20 = Some sliverResampled
   \<and> 3 \<le> length sliverResampled \<and> MIN_AREA \<le> calculateArea sliverResampled
   \<and> resampleBezierPath bezierLUT simplifyDouglasPeucker sliverPath 20
       = simplifyDouglasPeucker sliverResampled 4 True
   \<and> length (resampleBezierPath bezierLUT simplifyDouglasPeucker sliverPath 20) = 3"
proof -
  have r: "resampleBezierPath bezierLUT simplifyDouglasPeucker sliverPath 20 = sliverSimplified"
    by (simp add: resampleBezierPath_def sliver_resampleStage sliver_simplifyStage)
  have ne: "sliverSimplified \<noteq> []" "length sliverSimplified = 3"
    by (simp_all add: sliverSimplified_def)
  show ?thesis
    using resampleBezierPath_postcondition [of bezierLUT simplifyDouglasPeucker sliverPath 20]
      r ne sliver_resampleStage sliver_simplify
    by auto
qed

subsection \<open>Convex hull fallback\<close>

lemma crossProduct_noRounding [simp]: "crossProduct noRounding o' a b = orient o' a b"
  by (simp add: crossProduct_def orient_def noRounding_def)












text \<open>
  The scan keeps, for the points read so far, a chain that starts at the pivot and has every
  one of these points to the left of, or on, each of its edges and its closing edge. The
  lemmas below establish this invariant, from the order that the polar sort produces.
\<close>

subsubsection \<open>Algebra of the cross product\<close>



lemma cross_same [simp]: "orient a b b = 0" "orient a a b = 0" "orient a b a = 0"
  by (simp_all add: orient_def algebra_simps)






subsubsection \<open>The angular order around the pivot\<close>
















subsubsection \<open>The scan\<close>



lemma convexChain_below: "convexChain p (a # b # rest) \<Longrightarrow> b = p \<or> orient p b a > 0"
  by (cases rest) auto











subsubsection \<open>The sort\<close>




subsubsection \<open>The polar angle\<close>







subsubsection \<open>The pivot\<close>





subsubsection \<open>The hull contains the points\<close>




subsubsection \<open>A ring that is not simple has a hull of at least three points\<close>





subsubsection \<open>Rounding to doubles\<close>

lemma roundHalfEven_int [simp]: "roundHalfEven (of_int n) = n"
  by (simp add: roundHalfEven_def)

lemma roundHalfEven_bounds: "of_int \<lfloor>y\<rfloor> \<le> (of_int (roundHalfEven y) :: real)"
  "roundHalfEven y \<le> \<lfloor>y\<rfloor> + 1"
  by (simp_all add: roundHalfEven_def Let_def)

lemma floor_log2_scaled:
  assumes n: "n \<noteq> 0"
  shows "\<lfloor>log 2 \<bar>of_int n * 2 ^ k\<bar>\<rfloor> = \<lfloor>log 2 \<bar>of_int n\<bar>\<rfloor> + int k"
proof -
  have "\<bar>of_int n * (2::real) ^ k\<bar> = \<bar>of_int n\<bar> * 2 ^ k" by (simp add: abs_mult)
  moreover have "log 2 (\<bar>of_int n\<bar> * 2 ^ k) = log 2 \<bar>of_int n\<bar> + real k"
    using n by (simp add: log_mult)
  ultimately show ?thesis by simp
qed

lemma floor_log2_int:
  assumes n: "n \<noteq> 0" and b: "\<bar>n\<bar> < 2 ^ 53"
  shows "0 \<le> \<lfloor>log 2 \<bar>of_int n :: real\<bar>\<rfloor>" "\<lfloor>log 2 \<bar>of_int n :: real\<bar>\<rfloor> \<le> 52"
proof -
  have "1 \<le> \<bar>n\<bar>" using n by simp
  then have "(1::real) \<le> of_int \<bar>n\<bar>" by (simp only: of_int_1_le_iff)
  then have one: "1 \<le> \<bar>of_int n :: real\<bar>" by simp
  then have "0 \<le> log 2 \<bar>of_int n :: real\<bar>" by simp
  then show "0 \<le> \<lfloor>log 2 \<bar>of_int n :: real\<bar>\<rfloor>" by simp
  have "(of_int \<bar>n\<bar> :: real) < of_int (2 ^ 53)" using b by (simp only: of_int_less_iff)
  then have "\<bar>of_int n :: real\<bar> < 2 ^ 53" by simp
  then have "\<bar>of_int n :: real\<bar> < 2 powr 53" by (simp add: powr_realpow[symmetric])
  then have "log 2 \<bar>of_int n :: real\<bar> < 53"
    using one by (simp add: log_less_iff)
  then show "\<lfloor>log 2 \<bar>of_int n :: real\<bar>\<rfloor> \<le> 52" by (simp add: floor_le_iff)
qed

lemma two_powr_int: "(2::real) powr of_int (int k) = 2 ^ k"
  by (simp add: powr_realpow)

lemma roundDouble_exact:
  assumes b: "\<bar>n\<bar> < 2 ^ 53"
  shows "roundDouble (of_int n * 2 ^ k) = of_int n * 2 ^ k"
proof (cases "n = 0")
  case True
  then show ?thesis by (simp add: roundDouble_def)
next
  case False
  let ?x = "of_int n * (2::real) ^ k"
  let ?m = "\<lfloor>log 2 \<bar>of_int n :: real\<bar>\<rfloor>"
  have x0: "?x \<noteq> 0" using False by simp
  have e: "\<lfloor>log 2 \<bar>?x\<bar>\<rfloor> = ?m + int k" by (rule floor_log2_scaled[OF False])
  have m: "0 \<le> ?m" "?m \<le> 52" using floor_log2_int[OF False b] by simp_all
  obtain j where j: "52 - ?m = int j" using m(2) by (metis nonneg_int_cases diff_ge_0_iff_ge)
  let ?u = "(2::real) powr of_int (?m + int k - 52)"
  have u0: "?u > 0" by simp
  have "?u * 2 ^ j = 2 powr of_int (?m + int k - 52) * 2 powr of_int (int j)"
    by (simp only: two_powr_int)
  also have "\<dots> = 2 powr (of_int (?m + int k - 52) + of_int (int j))"
    by (simp only: powr_add)
  also have "\<dots> = 2 powr of_int (int k)"
  proof -
    have "?m + int k - 52 + int j = int k" using j by simp
    then have "(of_int (?m + int k - 52) + of_int (int j) :: real) = of_int (int k)"
      by (simp only: of_int_add[symmetric])
    then show ?thesis by (simp only:)
  qed
  also have "\<dots> = 2 ^ k" by (simp only: two_powr_int)
  finally have uj: "?u * 2 ^ j = 2 ^ k" .
  then have "?x / ?u = of_int n * 2 ^ j" using u0 by (simp add: field_simps)
  then have q: "?x / ?u = of_int (n * 2 ^ j)" by simp
  have "roundDouble ?x = ?u * of_int (roundHalfEven (?x / ?u))"
    using x0 by (simp only: roundDouble_def e Let_def if_False)
  also have "\<dots> = ?u * of_int (n * 2 ^ j)" by (simp only: q roundHalfEven_int)
  also have "\<dots> = of_int n * (?u * 2 ^ j)" by simp
  also have "\<dots> = ?x" by (simp only: uj)
  finally show ?thesis .
qed

lemma roundDouble_int: "\<bar>n\<bar> < 2 ^ 53 \<Longrightarrow> roundDouble (of_int n) = of_int n"
  using roundDouble_exact[of n 0] by simp


lemma roundDouble_scaled:
  assumes x: "x \<noteq> 0"
  shows "2 powr 52 \<le> \<bar>x\<bar> / 2 powr of_int (\<lfloor>log 2 \<bar>x\<bar>\<rfloor> - 52)"
proof -
  let ?e = "\<lfloor>log 2 \<bar>x\<bar>\<rfloor>"
  have ax: "0 < \<bar>x\<bar>" using x by simp
  have "of_int ?e \<le> log 2 \<bar>x\<bar>" by simp
  then have "2 powr of_int ?e \<le> 2 powr log 2 \<bar>x\<bar>" by simp
  then have le: "2 powr of_int ?e \<le> \<bar>x\<bar>" using ax by simp
  have "(2::real) powr of_int (?e - 52) * 2 powr 52 = 2 powr (of_int (?e - 52) + 52)"
    by (simp only: powr_add)
  also have "\<dots> = 2 powr of_int ?e" by simp
  finally have "(2::real) powr of_int (?e - 52) * 2 powr 52 \<le> \<bar>x\<bar>" using le by simp
  then show ?thesis by (simp add: field_simps)
qed

lemma roundDouble_pos:
  assumes x: "0 < x"
  shows "0 < roundDouble x"
proof -
  let ?u = "(2::real) powr of_int (\<lfloor>log 2 \<bar>x\<bar>\<rfloor> - 52)"
  have a: "\<bar>x\<bar> = x" using x by simp
  have "2 powr 52 \<le> \<bar>x\<bar> / ?u" using roundDouble_scaled[of x] x by blast
  then have "2 powr 52 \<le> x / ?u" by (simp only: a)
  moreover have "(1::real) \<le> 2 powr 52" by simp
  ultimately have "1 \<le> x / ?u" by (rule order_trans[rotated])
  then have "1 \<le> \<lfloor>x / ?u\<rfloor>" by simp
  then have "(1::real) \<le> of_int \<lfloor>x / ?u\<rfloor>" by (simp only: of_int_1_le_iff)
  then have "(0::real) < of_int (roundHalfEven (x / ?u))"
    using roundHalfEven_bounds(1)[of "x / ?u"] by linarith
  then have "0 < ?u * of_int (roundHalfEven (x / ?u))" by simp
  then show ?thesis using x by (simp add: roundDouble_def Let_def)
qed

lemma roundDouble_neg:
  assumes x: "x < 0"
  shows "roundDouble x < 0"
proof -
  let ?u = "(2::real) powr of_int (\<lfloor>log 2 \<bar>x\<bar>\<rfloor> - 52)"
  have a: "\<bar>x\<bar> = - x" using x by simp
  have "2 powr 52 \<le> \<bar>x\<bar> / ?u" using roundDouble_scaled[of x] x by blast
  then have "2 powr 52 \<le> - (x / ?u)" by (simp only: a minus_divide_left)
  moreover have "(2::real) \<le> 2 powr 52" by simp
  ultimately have "2 \<le> - (x / ?u)" by (rule order_trans[rotated])
  then have "x / ?u \<le> - 2" by linarith
  then have "\<lfloor>x / ?u\<rfloor> \<le> - 2" by (simp add: floor_le_iff)
  then have "roundHalfEven (x / ?u) < 0" using roundHalfEven_bounds(2)[of "x / ?u"] by linarith
  then have "(of_int (roundHalfEven (x / ?u)) :: real) < 0" by simp
  then have "?u * of_int (roundHalfEven (x / ?u)) < 0" by (simp add: mult_pos_neg)
  then show ?thesis using x by (simp add: roundDouble_def Let_def)
qed

lemma roundDouble_zero [simp]: "roundDouble 0 = 0"
  by (simp add: roundDouble_def)

lemma roundDouble_sign: "(roundDouble x \<le> 0) = (x \<le> 0)"
  using roundDouble_pos[of x] roundDouble_neg[of x]
  by (cases "x = 0") (auto simp: not_le[symmetric] less_le)

text \<open>A tie between two doubles: \<open>2^54 - 1\<close> lies half-way between \<open>2^54 - 2\<close> and \<open>2^54\<close>.\<close>

lemma roundDouble_tie: "roundDouble (2 ^ 54 - 1) = 2 ^ 54"
proof -
  let ?x = "(2::real) ^ 54 - 1"
  have pos: "0 < ?x" by simp
  have "2 powr 53 \<le> ?x" "?x < 2 powr 54" by (simp_all add: powr_realpow[symmetric])
  then have "\<lfloor>log 2 ?x\<rfloor> = 53"
    using pos by (simp add: floor_eq_iff le_log_iff log_less_iff)
  then have e: "\<lfloor>log 2 \<bar>?x\<bar>\<rfloor> - 52 = 1" using pos by simp
  have u: "(2::real) powr of_int 1 = 2" by simp
  have q: "?x / 2 = 2 ^ 53 - 1 / 2" by simp
  have f: "\<lfloor>(2::real) ^ 53 - 1 / 2\<rfloor> = 2 ^ 53 - 1"
    by (simp add: floor_eq_iff)
  have "roundHalfEven ((2::real) ^ 53 - 1 / 2) = 2 ^ 53"
    by (simp add: roundHalfEven_def f Let_def)
  then have "roundDouble ?x = 2 * of_int (2 ^ 53)"
    using pos by (simp only: roundDouble_def e u q Let_def) simp
  then show ?thesis by simp
qed















text \<open>
  Where it rounds, a left turn can be lost: for the ring \<open>nearlyFlat\<close> the cross product of
  the turn at the second point is 1, the rounded one is 0, the scan pops the point, and the
  point lies outside the hull that is returned.
\<close>

lemma rd_values:
  "roundDouble 134217727 = 134217727"
  "roundDouble 134217728 = 134217728"
  "roundDouble 134217729 = 134217729"
  "roundDouble 18014398509481984 = 18014398509481984"
  "roundDouble 18014398509481983 = 18014398509481984"
  "roundDouble 18014398643699712 = 18014398643699712"
proof -
  show "roundDouble 134217727 = 134217727" using roundDouble_int[of 134217727] by simp
  show "roundDouble 134217728 = 134217728" using roundDouble_int[of 134217728] by simp
  show "roundDouble 134217729 = 134217729" using roundDouble_int[of 134217729] by simp
  show "roundDouble 18014398509481984 = 18014398509481984"
    using roundDouble_exact[of 1 54] by simp
  show "roundDouble 18014398509481983 = 18014398509481984"
    using roundDouble_tie by simp
  show "roundDouble 18014398643699712 = 18014398643699712"
    using roundDouble_exact[of 134217729 27] by simp
qed

lemma nearlyFlat_turn:
  "orient (0, 0) (134217728, 134217727) (134217729, 134217728) = 1"
  "crossProduct roundDouble (0, 0) (134217728, 134217727) (134217729, 134217728) = 0"
  "crossProduct roundDouble (0, 0) (134217729, 134217728) (0, 134217728) > 0"
  by (simp_all add: orient_def crossProduct_def rd_values)

lemma nearlyFlat_order:
  "polarCompare roundDouble atan2 (0, 0) (134217729, 134217728) (0, 134217728) \<le> 0"
  "polarCompare roundDouble atan2 (0, 0) (134217728, 134217727) (134217729, 134217728) \<le> 0"
proof -
  have b: "atan2 134217728 134217729 = arctan (134217728 / 134217729)"
    and a: "atan2 134217727 134217728 = arctan (134217727 / 134217728)"
    and c: "atan2 134217728 0 = pi / 2"
    by (simp_all add: atan2_def)
  have bc: "arctan (134217728 / 134217729) < pi / 2" by (rule arctan_ubound)
  have ab: "arctan (134217727 / 134217728) < arctan (134217728 / 134217729)"
    by (simp add: arctan_less_iff)
  show "polarCompare roundDouble atan2 (0, 0) (134217729, 134217728) (0, 134217728) \<le> 0"
    using bc by (simp add: polarCompare_def Let_def rd_values a b c roundDouble_sign)
  show "polarCompare roundDouble atan2 (0, 0) (134217728, 134217727) (134217729, 134217728) \<le> 0"
    using ab by (simp add: polarCompare_def Let_def rd_values a b c roundDouble_sign)
qed

lemma nearlyFlat_hull:
  "computeConvexHull roundDouble atan2 nearlyFlat
     = [(0, 0), (134217729, 134217728), (0, 134217728)]"
proof -
  have u: "[1..<4] = [1, 2, 3::nat]" by (simp add: upt_rec)
  have b: "bottomIndex nearlyFlat = 0"
    by (simp add: bottomIndex_def nearlyFlat_def u)
  have s: "sortBy (polarCompare roundDouble atan2 (0, 0))
             [(134217728, 134217727), (134217729, 134217728), (0, 134217728)]
           = [(134217728, 134217727), (134217729, 134217728), (0, 134217728)]"
    by (simp add: sortBy_def nearlyFlat_order)
  have sw: "tl (nearlyFlat[0 := nearlyFlat ! 0, 0 := nearlyFlat ! 0]) =
      [(134217728, 134217727), (134217729, 134217728), (0, 134217728)]"
    "(nearlyFlat[0 := nearlyFlat ! 0, 0 := nearlyFlat ! 0]) ! 0 = (0, 0)"
    "\<not> length nearlyFlat < 3"
    by (simp_all add: nearlyFlat_def)
  have sc: "hullScan roundDouble [(0, 0)]
              [(134217728, 134217727), (134217729, 134217728), (0, 134217728)]
            = rev [(0, 0), (134217729, 134217728), (0, 134217728)]"
    using nearlyFlat_turn(3) by (simp add: hullScan_def nearlyFlat_turn(2) not_le)
  show ?thesis
    unfolding computeConvexHull_def Let_def b
    by (simp only: sw s sc if_False rev_rev_ident)
qed

lemma computeConvexHull_rounding:
  "(134217728, 134217727) \<in> set nearlyFlat
   \<and> \<not> insideOrOn (134217728, 134217727) (computeConvexHull roundDouble atan2 nearlyFlat)"
proof -
  let ?h = "[(0, 0), (134217729, 134217728), (0::real, 134217728::real)]"
  have "orient (?h ! 0) (?h ! ((0 + 1) mod length ?h)) (134217728, 134217727) < 0"
    by (simp add: orient_def)
  moreover have "0 < length ?h" by simp
  ultimately have "\<not> insideOrOn (134217728, 134217727) ?h"
    unfolding insideOrOn_def by (metis not_le)
  then have "\<not> insideOrOn (134217728, 134217727) (computeConvexHull roundDouble atan2 nearlyFlat)"
    by (simp add: nearlyFlat_hull)
  moreover have "(134217728, 134217727) \<in> set nearlyFlat" by (simp add: nearlyFlat_def)
  ultimately show ?thesis by blast
qed




end
